theory Spec2Isabelle
  imports Complex_Main
begin

section \<open>Python values, errors and floats\<close>

text \<open>
  The module \<^verbatim>\<open>lib/geo.py\<close> works on two kinds of data: already typed geometry
  (points, rings, polygons of floats) and untyped, JSON-like records (the GeoJSON
  features and geometries handed to \<^verbatim>\<open>extract_polygons\<close> and to the index builder).

  Coordinates are modelled as real numbers: finite doubles with exact arithmetic
  (no rounding, no NaN). The two infinities appear only as the initial values of the
  bounding box, hence the type \<open>xfloat\<close> for its components. In a record a number is
  an int or a float, as the JSON decoder gives them.

  Every exception the code can raise is a value of \<open>error\<close>; a function that can
  raise returns \<open>error + 'a\<close>.
\<close>

datatype error = TypeError | ValueError | AttributeError | ZeroDivisionError | OverflowError

datatype pyval =
    PNone
  | PBool bool
  | PInt int
  | PFloat real
  | PStr string
  | PList "pyval list"
  | PDict "(string \<times> pyval) list"

datatype xfloat = NegInf | Fin real | PosInf

type_synonym point = "real \<times> real"
type_synonym ring = "point list"
type_synonym polygon = "ring list"
type_synonym box = "xfloat \<times> xfloat \<times> xfloat \<times> xfloat"

text \<open>The comparison \<^verbatim>\<open>a < b\<close> of two floats, either of which may be infinite.\<close>

fun flt :: "xfloat \<Rightarrow> xfloat \<Rightarrow> bool" where
  "flt NegInf b = (b \<noteq> NegInf)"
| "flt (Fin a) NegInf = False"
| "flt (Fin a) (Fin b) = (a < b)"
| "flt (Fin a) PosInf = True"
| "flt PosInf b = False"

text \<open>
  The built-ins \<^verbatim>\<open>min(a, b)\<close> and \<^verbatim>\<open>max(a, b)\<close>: the first argument is kept unless
  the second is strictly smaller (strictly larger).
\<close>

definition pymin :: "xfloat \<Rightarrow> xfloat \<Rightarrow> xfloat" where
  "pymin a b = (if flt b a then b else a)"

definition pymax :: "xfloat \<Rightarrow> xfloat \<Rightarrow> xfloat" where
  "pymax a b = (if flt a b then b else a)"

text \<open>Truthiness, as \<^verbatim>\<open>not v\<close> and \<^verbatim>\<open>v or w\<close> read it.\<close>

fun truthy :: "pyval \<Rightarrow> bool" where
  "truthy PNone = False"
| "truthy (PBool b) = b"
| "truthy (PInt i) = (i \<noteq> 0)"
| "truthy (PFloat r) = (r \<noteq> 0)"
| "truthy (PStr s) = (s \<noteq> [])"
| "truthy (PList vs) = (vs \<noteq> [])"
| "truthy (PDict kvs) = (kvs \<noteq> [])"

text \<open>\<^verbatim>\<open>d.get(k)\<close> and \<^verbatim>\<open>d.get(k, default)\<close> on a dictionary given by its items.\<close>

definition dict_get_default :: "(string \<times> pyval) list \<Rightarrow> string \<Rightarrow> pyval \<Rightarrow> pyval" where
  "dict_get_default kvs k d = (case map_of kvs k of None \<Rightarrow> d | Some v \<Rightarrow> v)"

definition dict_get :: "(string \<times> pyval) list \<Rightarrow> string \<Rightarrow> pyval" where
  "dict_get kvs k = dict_get_default kvs k PNone"

text \<open>
  Iterating a value (\<^verbatim>\<open>for item in v\<close>): a list gives its elements, a string its
  characters, a dictionary its keys; nothing else is iterable.
\<close>

fun py_iter :: "pyval \<Rightarrow> error + pyval list" where
  "py_iter (PList vs) = Inr vs"
| "py_iter (PStr s) = Inr (map (\<lambda>c. PStr [c]) s)"
| "py_iter (PDict kvs) = Inr (map (\<lambda>kv. PStr (fst kv)) kvs)"
| "py_iter v = Inl TypeError"

text \<open>
  The unpacking target \<^verbatim>\<open>x, y\<close> of \<^verbatim>\<open>for x, y in ring\<close>: the item must be iterable
  and give exactly two values, otherwise \<^verbatim>\<open>ValueError\<close> (too many or not enough
  values to unpack).
\<close>

definition unpack2 :: "pyval \<Rightarrow> error + (pyval \<times> pyval)" where
  "unpack2 v =
     (case py_iter v of
        Inl e \<Rightarrow> Inl e
      | Inr items \<Rightarrow> (case items of [a, b] \<Rightarrow> Inr (a, b) | _ \<Rightarrow> Inl ValueError))"

text \<open>
  The built-in \<^verbatim>\<open>float(v)\<close>. A float is returned as it is and a boolean converts
  to 1.0 or 0.0; \<^verbatim>\<open>None\<close>, lists and dictionaries raise \<^verbatim>\<open>TypeError\<close>. What
  \<^verbatim>\<open>float\<close> does with a string and with an int is Python's own: the parser of
  number literals, which raises \<^verbatim>\<open>ValueError\<close> on a string that is no number, and
  the rounding of an int to the nearest double, which raises \<^verbatim>\<open>OverflowError\<close> on
  an int too large for a double. Both are taken as parameters, the two fields of
  \<open>float_builtin\<close>, with \<open>None\<close> for the exception.
\<close>

record float_builtin =
  float_of_str :: "string \<Rightarrow> real option"
  float_of_int :: "int \<Rightarrow> real option"

fun py_float :: "float_builtin \<Rightarrow> pyval \<Rightarrow> error + real" where
  "py_float sf (PFloat r) = Inr r"
| "py_float sf (PInt i) =
     (case float_of_int sf i of None \<Rightarrow> Inl OverflowError | Some r \<Rightarrow> Inr r)"
| "py_float sf (PBool b) = Inr (if b then 1 else 0)"
| "py_float sf (PStr s) =
     (case float_of_str sf s of None \<Rightarrow> Inl ValueError | Some r \<Rightarrow> Inr r)"
| "py_float sf v = Inl TypeError"

text \<open>A list comprehension whose body can raise: the first exception ends it.\<close>

fun try_map :: "('a \<Rightarrow> error + 'b) \<Rightarrow> 'a list \<Rightarrow> error + 'b list" where
  "try_map f [] = Inr []"
| "try_map f (x # xs) =
     (case f x of
        Inl e \<Rightarrow> Inl e
      | Inr y \<Rightarrow> (case try_map f xs of Inl e \<Rightarrow> Inl e | Inr ys \<Rightarrow> Inr (y # ys)))"

section \<open>Geometry primitives\<close>

text \<open>\<^verbatim>\<open>_point_on_segment(point, a, b, epsilon)\<close>.\<close>

definition point_on_segment :: "point \<Rightarrow> point \<Rightarrow> point \<Rightarrow> real \<Rightarrow> bool" where
  "point_on_segment point a b epsilon =
     (case (point, a, b) of ((x, y), (x1, y1), (x2, y2)) \<Rightarrow>
        (let cross = (x - x1) * (y2 - y1) - (y - y1) * (x2 - x1) in
         if \<bar>cross\<bar> > epsilon then False
         else
           (let dot = (x - x1) * (x2 - x1) + (y - y1) * (y2 - y1) in
            if dot < 0 then False
            else
              (let squared_len = (x2 - x1) ^ 2 + (y2 - y1) ^ 2 in
               if dot > squared_len then False else True))))"

text \<open>The default value of \<^verbatim>\<open>epsilon\<close>, \<^verbatim>\<open>1e-9\<close>.\<close>

definition default_epsilon :: real where
  "default_epsilon = 1 / 10 ^ 9"

text \<open>
  The loop of \<^verbatim>\<open>_point_in_ring\<close> over the indices still to visit, with the flag
  \<^verbatim>\<open>inside\<close>. The division raises \<^verbatim>\<open>ZeroDivisionError\<close> when the denominator
  \<^verbatim>\<open>y2 - y1 + 1e-12\<close> is zero.
\<close>

fun ring_loop :: "point \<Rightarrow> ring \<Rightarrow> nat list \<Rightarrow> bool \<Rightarrow> error + bool" where
  "ring_loop point ring [] inside = Inr inside"
| "ring_loop point ring (i # rest) inside =
     (case (point, ring ! i, ring ! ((i + 1) mod length ring)) of
        ((x, y), (x1, y1), (x2, y2)) \<Rightarrow>
          if point_on_segment point (x1, y1) (x2, y2) default_epsilon then Inr True
          else
            (let intersects = ((y1 > y) \<noteq> (y2 > y)) in
             if intersects then
               (if y2 - y1 + 1 / 10 ^ 12 = 0 then Inl ZeroDivisionError
                else
                  (let x_at_y = (x2 - x1) * (y - y1) / (y2 - y1 + 1 / 10 ^ 12) + x1 in
                   if x < x_at_y then ring_loop point ring rest (\<not> inside)
                   else ring_loop point ring rest inside))
             else ring_loop point ring rest inside))"

definition point_in_ring :: "point \<Rightarrow> ring \<Rightarrow> error + bool" where
  "point_in_ring point ring =
     (if length ring < 3 then Inr False
      else ring_loop point ring [0 ..< length ring] False)"

text \<open>The loop of \<^verbatim>\<open>point_in_polygon\<close> over the holes \<^verbatim>\<open>polygon[1:]\<close>.\<close>

fun holes_loop :: "point \<Rightarrow> ring list \<Rightarrow> error + bool" where
  "holes_loop point [] = Inr True"
| "holes_loop point (hole # rest) =
     (case point_in_ring point hole of
        Inl e \<Rightarrow> Inl e
      | Inr in_hole \<Rightarrow> if in_hole then Inr False else holes_loop point rest)"

fun point_in_polygon :: "point \<Rightarrow> polygon \<Rightarrow> error + bool" where
  "point_in_polygon point [] = Inr False"
| "point_in_polygon point (outer # holes) =
     (case point_in_ring point outer of
        Inl e \<Rightarrow> Inl e
      | Inr in_outer \<Rightarrow> if \<not> in_outer then Inr False else holes_loop point holes)"

section \<open>Geometry extraction\<close>

text \<open>The body \<^verbatim>\<open>(float(x), float(y)) for x, y in ring\<close> for one item of a ring.\<close>

definition coord_pair :: "float_builtin \<Rightarrow> pyval \<Rightarrow> error + point" where
  "coord_pair sf item =
     (case unpack2 item of
        Inl e \<Rightarrow> Inl e
      | Inr (x, y) \<Rightarrow>
          (case py_float sf x of
             Inl e \<Rightarrow> Inl e
           | Inr fx \<Rightarrow> (case py_float sf y of Inl e \<Rightarrow> Inl e | Inr fy \<Rightarrow> Inr (fx, fy))))"

text \<open>\<^verbatim>\<open>[(float(x), float(y)) for x, y in ring]\<close>.\<close>

definition ring_of :: "float_builtin \<Rightarrow> pyval \<Rightarrow> error + ring" where
  "ring_of sf ring =
     (case py_iter ring of Inl e \<Rightarrow> Inl e | Inr items \<Rightarrow> try_map (coord_pair sf) items)"

text \<open>\<^verbatim>\<open>[[(float(x), float(y)) for x, y in ring] for ring in coords]\<close>.\<close>

definition polygon_of :: "float_builtin \<Rightarrow> pyval \<Rightarrow> error + polygon" where
  "polygon_of sf coords =
     (case py_iter coords of Inl e \<Rightarrow> Inl e | Inr rings \<Rightarrow> try_map (ring_of sf) rings)"

text \<open>
  \<^verbatim>\<open>extract_polygons(geometry)\<close>. The method \<^verbatim>\<open>get\<close> exists on dictionaries only:
  any other value raises \<^verbatim>\<open>AttributeError\<close>.
\<close>

definition extract_polygons :: "float_builtin \<Rightarrow> pyval \<Rightarrow> error + polygon list" where
  "extract_polygons sf geometry =
     (case geometry of
        PDict kvs \<Rightarrow>
          (let geom_type = dict_get kvs ''type'';
               coords = dict_get kvs ''coordinates'' in
           if \<not> truthy geom_type \<or> coords = PNone then Inr []
           else if geom_type = PStr ''Polygon'' then
             (case polygon_of sf coords of Inl e \<Rightarrow> Inl e | Inr polygon \<Rightarrow> Inr [polygon])
           else if geom_type = PStr ''MultiPolygon'' then
             (case py_iter coords of
                Inl e \<Rightarrow> Inl e
              | Inr items \<Rightarrow> try_map (polygon_of sf) items)
           else Inr [])
      | _ \<Rightarrow> Inl AttributeError)"

section \<open>Bounding boxes\<close>

definition bbox_step :: "point \<Rightarrow> box \<Rightarrow> box" where
  "bbox_step pt b =
     (case (pt, b) of ((x, y), (min_x, min_y, max_x, max_y)) \<Rightarrow>
        (pymin min_x (Fin x), pymin min_y (Fin y), pymax max_x (Fin x), pymax max_y (Fin y)))"

definition polygon_bbox :: "polygon list \<Rightarrow> box" where
  "polygon_bbox polys =
     fold (\<lambda>polygon. fold (\<lambda>ring. fold bbox_step ring) polygon) polys
       (PosInf, PosInf, NegInf, NegInf)"

section \<open>The feature index\<close>

record GeoFeature =
  bbox :: box
  polygons :: "polygon list"
  properties :: pyval

text \<open>
  The body of the loop of \<^verbatim>\<open>GeoFeatureIndex.__init__\<close> for one record: \<open>None\<close>
  when the record is skipped (\<^verbatim>\<open>continue\<close>), the feature to append otherwise.
\<close>

definition build_feature :: "float_builtin \<Rightarrow> pyval \<Rightarrow> error + GeoFeature option" where
  "build_feature sf feature =
     (case feature of
        PDict kvs \<Rightarrow>
          (let g = dict_get kvs ''geometry'';
               geometry = (if truthy g then g else PDict []) in
           case extract_polygons sf geometry of
             Inl e \<Rightarrow> Inl e
           | Inr polys \<Rightarrow>
               if polys = [] then Inr None
               else Inr (Some
                 \<lparr>bbox = polygon_bbox polys, polygons = polys,
                  properties = dict_get_default kvs ''properties'' (PDict [])\<rparr>))
      | _ \<Rightarrow> Inl AttributeError)"

text \<open>
  The loop itself: the records still to read and the list \<^verbatim>\<open>self.features\<close> built
  so far. An exception leaves no index at all.
\<close>

fun init_loop ::
  "float_builtin \<Rightarrow> pyval list \<Rightarrow> GeoFeature list \<Rightarrow> error + GeoFeature list" where
  "init_loop sf [] features = Inr features"
| "init_loop sf (feature # rest) features =
     (case build_feature sf feature of
        Inl e \<Rightarrow> Inl e
      | Inr None \<Rightarrow> init_loop sf rest features
      | Inr (Some f) \<Rightarrow> init_loop sf rest (features @ [f]))"

definition GeoFeatureIndex :: "float_builtin \<Rightarrow> pyval list \<Rightarrow> error + GeoFeature list" where
  "GeoFeatureIndex sf features = init_loop sf features []"

text \<open>
  The inner loop of \<^verbatim>\<open>lookup\<close> over the polygons of one feature: \<open>True\<close> when some
  polygon contains the point (the function returns there), \<open>False\<close> when the loop ends.
\<close>

fun polygons_loop :: "point \<Rightarrow> polygon list \<Rightarrow> error + bool" where
  "polygons_loop point [] = Inr False"
| "polygons_loop point (polygon # rest) =
     (case point_in_polygon point polygon of
        Inl e \<Rightarrow> Inl e
      | Inr hit \<Rightarrow> if hit then Inr True else polygons_loop point rest)"

text \<open>
  The pruning test of \<^verbatim>\<open>lookup\<close>:
  \<^verbatim>\<open>x < min_x or x > max_x or y < min_y or y > max_y\<close>.
\<close>

definition outside_box :: "point \<Rightarrow> box \<Rightarrow> bool" where
  "outside_box point b =
     (case (point, b) of ((x, y), (min_x, min_y, max_x, max_y)) \<Rightarrow>
        flt (Fin x) min_x \<or> flt max_x (Fin x) \<or> flt (Fin y) min_y \<or> flt max_y (Fin y))"

text \<open>\<^verbatim>\<open>lookup(point)\<close> on the feature list of an index; \<open>PNone\<close> is \<^verbatim>\<open>None\<close>.\<close>

fun lookup :: "GeoFeature list \<Rightarrow> point \<Rightarrow> error + pyval" where
  "lookup [] point = Inr PNone"
| "lookup (feature # rest) point =
     (if outside_box point (bbox feature) then lookup rest point
      else
        (case polygons_loop point (polygons feature) of
           Inl e \<Rightarrow> Inl e
         | Inr hit \<Rightarrow> if hit then Inr (properties feature) else lookup rest point))"

section \<open>Vocabulary of the properties\<close>

text \<open>
  What one pass of the loop of \<^verbatim>\<open>lookup\<close> decides for one feature: \<open>True\<close> when
  the function returns the feature's properties, \<open>False\<close> when the scan goes on.
\<close>

definition match_feature :: "point \<Rightarrow> GeoFeature \<Rightarrow> error + bool" where
  "match_feature point feature =
     (if outside_box point (bbox feature) then Inr False
      else polygons_loop point (polygons feature))"

text \<open>
  The point is accepted by the tolerance test \<^verbatim>\<open>_point_on_segment\<close> on some edge
  of the ring, as \<^verbatim>\<open>_point_in_ring\<close> walks the edges.
\<close>

definition touches_edge :: "point \<Rightarrow> ring \<Rightarrow> bool" where
  "touches_edge point ring =
     list_ex
       (\<lambda>i. point_on_segment point (ring ! i) (ring ! ((i + 1) mod length ring)) default_epsilon)
       [0 ..< length ring]"

text \<open>
  The nested lists of a GeoJSON geometry: a coordinate entry is the list of its
  components, a ring a list of entries, a polygon a list of rings.
\<close>

definition enc_ring :: "pyval list list \<Rightarrow> pyval" where
  "enc_ring entries = PList (map PList entries)"

definition enc_polygon :: "pyval list list list \<Rightarrow> pyval" where
  "enc_polygon rings = PList (map enc_ring rings)"

text \<open>
  The dictionary \<open>kvs\<close> is a geometry record of a supported type whose coordinates
  are the nested lists \<open>polys\<close>: one polygon for \<^verbatim>\<open>"Polygon"\<close>, any number of them
  for \<^verbatim>\<open>"MultiPolygon"\<close>.
\<close>

definition is_geometry_of :: "(string \<times> pyval) list \<Rightarrow> pyval list list list list \<Rightarrow> bool" where
  "is_geometry_of kvs polys =
     ((dict_get kvs ''type'' = PStr ''Polygon'' \<and>
       (case polys of [rings] \<Rightarrow> dict_get kvs ''coordinates'' = enc_polygon rings | _ \<Rightarrow> False))
      \<or>
      (dict_get kvs ''type'' = PStr ''MultiPolygon'' \<and>
       dict_get kvs ''coordinates'' = PList (map enc_polygon polys)))"

text \<open>
  The geometry that \<^verbatim>\<open>__init__\<close> hands to \<^verbatim>\<open>extract_polygons\<close> for the record
  with the items \<open>kvs\<close>: \<^verbatim>\<open>feature.get("geometry") or {}\<close>.
\<close>

definition record_geometry :: "(string \<times> pyval) list \<Rightarrow> pyval" where
  "record_geometry kvs =
     (let g = dict_get kvs ''geometry'' in if truthy g then g else PDict [])"

text \<open>The features that survive construction, in the order of their records.\<close>

definition surviving :: "GeoFeature option list \<Rightarrow> GeoFeature list" where
  "surviving outcomes = List.map_filter id outcomes"

section \<open>Auxiliary facts\<close>

subsection \<open>Comprehensions that can raise\<close>

lemma try_map_Inr_iff: "try_map f xs = Inr ys \<longleftrightarrow> map f xs = map Inr ys"
proof (induction xs arbitrary: ys)
  case Nil
  then show ?case by auto
next
  case (Cons a xs)
  show ?case
  proof (cases "f a")
    case (Inl e)
    then show ?thesis by auto
  next
    case fa: (Inr z)
    show ?thesis
    proof (cases "try_map f xs")
      case (Inl e)
      with Cons.IH have "\<And>zs. map f xs \<noteq> map Inr zs" by simp
      with fa Inl show ?thesis by auto
    next
      case (Inr zs)
      with Cons.IH [of zs] have "map f xs = map Inr zs" by simp
      with fa Inr show ?thesis by auto
    qed
  qed
qed

lemma try_map_Inl_D: "try_map f xs = Inl e \<Longrightarrow> \<exists>x\<in>set xs. f x = Inl e"
  by (induction xs) (auto split: sum.splits)

lemma try_map_Inl_I: "x \<in> set xs \<Longrightarrow> f x = Inl e \<Longrightarrow> \<exists>e'. try_map f xs = Inl e'"
  by (induction xs) (auto split: sum.splits)

lemma try_map_all_Inr: "(\<forall>x\<in>set xs. f x = Inr (g x)) \<Longrightarrow> try_map f xs = Inr (map g xs)"
  by (induction xs) auto

lemma try_map_append:
  "try_map f (xs @ ys) =
     (case try_map f xs of
        Inl e \<Rightarrow> Inl e
      | Inr us \<Rightarrow> (case try_map f ys of Inl e \<Rightarrow> Inl e | Inr vs \<Rightarrow> Inr (us @ vs)))"
  by (induction xs) (auto split: sum.splits)

subsection \<open>The loops of the index\<close>

lemma init_loop_try_map:
  "init_loop sf records acc =
     (case try_map (build_feature sf) records of
        Inl e \<Rightarrow> Inl e
      | Inr outcomes \<Rightarrow> Inr (acc @ surviving outcomes))"
  by (induction records arbitrary: acc)
     (auto simp: surviving_def List.map_filter_simps split: sum.splits option.splits)

lemma init_loop_append:
  "init_loop sf (pre @ post) acc =
     (case init_loop sf pre acc of Inl e \<Rightarrow> Inl e | Inr acc' \<Rightarrow> init_loop sf post acc')"
  by (induction pre arbitrary: acc) (auto split: sum.splits option.splits)

lemma lookup_Cons_match:
  "lookup (f # rest) p =
     (case match_feature p f of
        Inl e \<Rightarrow> Inl e
      | Inr hit \<Rightarrow> if hit then Inr (properties f) else lookup rest p)"
  by (simp add: match_feature_def)

lemma lookup_skip:
  "match_feature p f = Inr False \<Longrightarrow> lookup (pre @ f # post) p = lookup (pre @ post) p"
  by (induction pre) (simp_all add: lookup_Cons_match del: lookup.simps split: sum.splits)

lemma lookup_first_match:
  "\<forall>g\<in>set pre. match_feature p g = Inr False \<Longrightarrow> match_feature p f = Inr True \<Longrightarrow>
   lookup (pre @ f # post) p = Inr (properties f)"
  by (induction pre) (simp_all add: lookup_Cons_match del: lookup.simps)

lemma surviving_append: "surviving (xs @ ys) = surviving xs @ surviving ys"
  by (simp add: surviving_def List.map_filter_def)

subsection \<open>Holes\<close>

lemma holes_loop_True_iff:
  "holes_loop p hs = Inr True \<longleftrightarrow> (\<forall>h\<in>set hs. point_in_ring p h = Inr False)"
  by (induction hs) (auto split: sum.splits)

subsection \<open>Bounding boxes\<close>

lemma fold_fold_concat: "fold (fold f) xss b = fold f (concat xss) b"
  by (induction xss arbitrary: b) simp_all

lemma polygon_bbox_flat:
  "polygon_bbox polys = fold bbox_step (concat (concat polys)) (PosInf, PosInf, NegInf, NegInf)"
proof -
  have "(\<lambda>polygon. fold (\<lambda>ring. fold bbox_step ring) polygon) = fold (fold bbox_step)"
    by (rule ext) simp
  then show ?thesis
    by (simp add: polygon_bbox_def fold_fold_concat)
qed

lemma bbox_step_Fin:
  "bbox_step (x, y) (Fin a, Fin b, Fin c, Fin d) = (Fin (min a x), Fin (min b y), Fin (max c x), Fin (max d y))"
  by (simp add: bbox_step_def pymin_def pymax_def min_def max_def)

lemma bbox_step_init:
  "bbox_step (x, y) (PosInf, PosInf, NegInf, NegInf) = (Fin x, Fin y, Fin x, Fin y)"
  by (simp add: bbox_step_def pymin_def pymax_def)

lemma fold_bbox_step_Fin:
  "a \<le> c \<Longrightarrow> b \<le> d \<Longrightarrow>
   \<exists>a' b' c' d'. fold bbox_step pts (Fin a, Fin b, Fin c, Fin d) = (Fin a', Fin b', Fin c', Fin d')
      \<and> a' \<le> c' \<and> b' \<le> d'"
proof (induction pts arbitrary: a b c d)
  case Nil
  then show ?case by simp
next
  case (Cons pt pts)
  obtain x y where pt: "pt = (x, y)" by (cases pt)
  have "min a x \<le> max c x" "min b y \<le> max d y"
    using Cons.prems by (auto simp: min_def max_def)
  from Cons.IH [OF this] show ?case
    by (simp add: pt bbox_step_Fin)
qed

lemma polygon_bbox_nonempty:
  assumes "concat (concat polys) \<noteq> []"
  shows "\<exists>lx ly hx hy. polygon_bbox polys = (Fin lx, Fin ly, Fin hx, Fin hy) \<and> lx \<le> hx \<and> ly \<le> hy"
proof -
  from assms obtain pt pts where c: "concat (concat polys) = pt # pts"
    by (cases "concat (concat polys)") auto
  obtain x y where pt: "pt = (x, y)" by (cases pt)
  have "polygon_bbox polys = fold bbox_step pts (Fin x, Fin y, Fin x, Fin y)"
    by (simp add: polygon_bbox_flat c pt bbox_step_init)
  with fold_bbox_step_Fin [of x x y y pts] show ?thesis by auto
qed

lemma polygon_bbox_empty:
  assumes "concat (concat polys) = []"
  shows "polygon_bbox polys = (PosInf, PosInf, NegInf, NegInf)"
  by (subst polygon_bbox_flat, subst assms, simp)

lemma outside_degenerate_box: "outside_box p (PosInf, PosInf, NegInf, NegInf)"
  by (cases p) (simp add: outside_box_def)

lemma match_feature_degenerate:
  "bbox f = (PosInf, PosInf, NegInf, NegInf) \<Longrightarrow> match_feature p f = Inr False"
  by (simp add: match_feature_def outside_degenerate_box)

subsection \<open>Construction and lookup\<close>

lemma GeoFeatureIndex_outcomes:
  "map (build_feature sf) records = map Inr outcomes \<Longrightarrow>
   GeoFeatureIndex sf records = Inr (surviving outcomes)"
  by (simp add: GeoFeatureIndex_def init_loop_try_map try_map_Inr_iff [symmetric])

lemma GeoFeatureIndex_Inr_D:
  "GeoFeatureIndex sf records = Inr idx \<Longrightarrow>
   \<exists>outcomes. map (build_feature sf) records = map Inr outcomes \<and> idx = surviving outcomes"
  by (auto simp: GeoFeatureIndex_def init_loop_try_map try_map_Inr_iff [symmetric] split: sum.splits)

lemma init_loop_skip:
  "build_feature sf r = Inr None \<Longrightarrow>
   init_loop sf (pre @ r # post) acc = init_loop sf (pre @ post) acc"
  by (simp add: init_loop_append split: sum.splits)

lemma init_loop_abort:
  "init_loop sf pre acc = Inr acc' \<Longrightarrow> build_feature sf r = Inl e \<Longrightarrow>
   init_loop sf (pre @ r # post) acc = Inl e"
  by (simp add: init_loop_append)

lemma extract_polygons_unsupported:
  assumes "map_of kvs ''type'' = None
         \<or> (dict_get kvs ''type'' \<noteq> PStr ''Polygon'' \<and> dict_get kvs ''type'' \<noteq> PStr ''MultiPolygon'')
         \<or> map_of kvs ''coordinates'' = None"
  shows "extract_polygons sf (PDict kvs) = Inr []"
  using assms by (auto simp: extract_polygons_def dict_get_def dict_get_default_def Let_def)

lemma build_feature_no_polygons:
  assumes "dict_get fkvs ''geometry'' = PDict kvs" "extract_polygons sf (PDict kvs) = Inr []"
  shows "build_feature sf (PDict fkvs) = Inr None"
proof (cases "kvs = []")
  case True
  with assms show ?thesis by (simp add: build_feature_def Let_def)
next
  case False
  with assms show ?thesis by (simp add: build_feature_def Let_def)
qed

lemma lookup_nth_first_match:
  assumes "i < length idx" "match_feature p (idx ! i) = Inr True"
    "\<forall>j<i. match_feature p (idx ! j) = Inr False"
  shows "lookup idx p = Inr (properties (idx ! i))"
proof -
  have split: "idx = take i idx @ idx ! i # drop (Suc i) idx"
    using assms(1) by (simp add: id_take_nth_drop)
  have "\<forall>g\<in>set (take i idx). match_feature p g = Inr False"
    using assms(1,3) by (auto simp: in_set_conv_nth)
  from lookup_first_match [OF this assms(2), of "drop (Suc i) idx"] split
  show ?thesis by simp
qed

lemma build_feature_empty_polygon:
  assumes "dict_get fkvs ''geometry'' = PDict [(''type'', PStr ''Polygon''), (''coordinates'', PList [])]"
  shows "build_feature sf (PDict fkvs)
     = Inr (Some \<lparr>bbox = (PosInf, PosInf, NegInf, NegInf), polygons = [[]],
                   properties = dict_get_default fkvs ''properties'' (PDict [])\<rparr>)"
  using assms
  by (simp add: build_feature_def extract_polygons_def polygon_of_def
      dict_get_def [of "[(''type'', PStr ''Polygon''), (''coordinates'', PList [])]"]
      dict_get_default_def [of "[(''type'', PStr ''Polygon''), (''coordinates'', PList [])]"]
      polygon_bbox_def)

subsection \<open>Vertices, edges and the bounding box\<close>

lemma not_flt_pymin_self: "\<not> flt (Fin v) (pymin a (Fin v))"
  by (cases a) (simp_all add: pymin_def)

lemma not_flt_pymax_self: "\<not> flt (pymax a (Fin v)) (Fin v)"
  by (cases a) (simp_all add: pymax_def)

lemma not_flt_pymin_mono: "\<not> flt (Fin v) a \<Longrightarrow> \<not> flt (Fin v) (pymin a (Fin q))"
  by (cases a) (simp_all add: pymin_def)

lemma not_flt_pymax_mono: "\<not> flt a (Fin v) \<Longrightarrow> \<not> flt (pymax a (Fin q)) (Fin v)"
  by (cases a) (simp_all add: pymax_def)

lemma inside_box_step_self: "\<not> outside_box v (bbox_step v b)"
  by (cases v; cases b)
     (simp add: outside_box_def bbox_step_def not_flt_pymin_self not_flt_pymax_self)

lemma inside_box_step_mono: "\<not> outside_box v b \<Longrightarrow> \<not> outside_box v (bbox_step q b)"
  by (cases v; cases q; cases b)
     (simp add: outside_box_def bbox_step_def not_flt_pymin_mono not_flt_pymax_mono)

lemma inside_box_fold_mono: "\<not> outside_box v b \<Longrightarrow> \<not> outside_box v (fold bbox_step pts b)"
  by (induction pts arbitrary: b) (simp_all add: inside_box_step_mono)

lemma inside_box_fold_member: "v \<in> set pts \<Longrightarrow> \<not> outside_box v (fold bbox_step pts b)"
proof (induction pts arbitrary: b)
  case Nil
  then show ?case by simp
next
  case (Cons q pts)
  show ?case
  proof (cases "v = q")
    case True
    then show ?thesis
      by (simp add: inside_box_fold_mono inside_box_step_self)
  next
    case False
    with Cons show ?thesis by simp
  qed
qed

lemma vertex_inside_polygon_bbox:
  assumes "v \<in> set ring" "ring \<in> set polygon" "polygon \<in> set polys"
  shows "\<not> outside_box v (polygon_bbox polys)"
proof -
  from assms have "v \<in> set (concat (concat polys))" by auto
  then show ?thesis
    unfolding polygon_bbox_flat by (rule inside_box_fold_member)
qed

lemma not_flt_below: "\<not> flt (Fin v) m \<Longrightarrow> v \<le> y \<Longrightarrow> \<not> flt (Fin y) m"
  by (cases m) simp_all

lemma not_flt_above: "\<not> flt m (Fin v) \<Longrightarrow> y \<le> v \<Longrightarrow> \<not> flt m (Fin y)"
  by (cases m) simp_all

lemma ring_loop_True_edge:
  assumes "ring_loop (x, y) ring todo inside = Inr True" "\<not> inside"
  shows "\<exists>i\<in>set todo.
           point_on_segment (x, y) (ring ! i) (ring ! ((i + 1) mod length ring)) default_epsilon
         \<or> (snd (ring ! i) > y) \<noteq> (snd (ring ! ((i + 1) mod length ring)) > y)"
  using assms
proof (induction todo arbitrary: inside)
  case Nil
  then show ?case by simp
next
  case (Cons i todo)
  obtain x1 y1 where a: "ring ! i = (x1, y1)" by (cases "ring ! i")
  obtain x2 y2 where b: "ring ! ((i + 1) mod length ring) = (x2, y2)"
    by (cases "ring ! ((i + 1) mod length ring)")
  show ?case
  proof (cases "point_on_segment (x, y) (x1, y1) (x2, y2) default_epsilon \<or> (y1 > y) \<noteq> (y2 > y)")
    case True
    then show ?thesis using a b by auto
  next
    case False
    with Cons.prems a b have "ring_loop (x, y) ring todo inside = Inr True"
      by (auto simp: Let_def)
    from Cons.IH [OF this Cons.prems(2)] show ?thesis by auto
  qed
qed

subsection \<open>Extraction from nested lists\<close>

lemma try_map_map: "try_map f (map g xs) = try_map (\<lambda>x. f (g x)) xs"
  by (induction xs) (auto split: sum.splits)

lemma try_map_error_uniform:
  assumes "\<forall>x\<in>set xs. (\<exists>y. f x = Inr y) \<or> f x = Inl e" "\<exists>x\<in>set xs. f x = Inl e"
  shows "try_map f xs = Inl e"
proof -
  from assms(2) obtain x where x: "x \<in> set xs" "f x = Inl e" by blast
  have "\<exists>e'. try_map f xs = Inl e'" using x by (rule try_map_Inl_I)
  then obtain e' where e': "try_map f xs = Inl e'" by blast
  from try_map_Inl_D [OF e'] obtain z where "z \<in> set xs" "f z = Inl e'" by blast
  with assms(1) have "e' = e" by auto
  with e' show ?thesis by simp
qed

lemma try_map_uniform:
  assumes "\<forall>x\<in>set xs. (\<exists>y. f x = Inr y) \<or> f x = Inl e"
  shows "(\<exists>ys. try_map f xs = Inr ys) \<or> try_map f xs = Inl e"
proof (cases "try_map f xs")
  case (Inl e')
  from try_map_Inl_D [OF Inl] obtain z where "z \<in> set xs" "f z = Inl e'" by blast
  with assms have "e' = e" by auto
  with Inl show ?thesis by simp
next
  case (Inr ys)
  then show ?thesis by simp
qed

lemma py_float_error:
  "py_float sf v = Inl e \<Longrightarrow> e = TypeError \<or> e = ValueError \<or> e = OverflowError"
  by (cases v) (auto split: option.splits)

lemma coord_pair_two:
  "coord_pair sf (PList [a, b]) =
     (case py_float sf a of
        Inl e \<Rightarrow> Inl e
      | Inr fx \<Rightarrow> (case py_float sf b of Inl e \<Rightarrow> Inl e | Inr fy \<Rightarrow> Inr (fx, fy)))"
  by (simp add: coord_pair_def unpack2_def)

lemma coord_pair_not_two: "length comps \<noteq> 2 \<Longrightarrow> coord_pair sf (PList comps) = Inl ValueError"
  by (cases comps rule: list.exhaust [case_product list.exhaust])
     (auto simp: coord_pair_def unpack2_def split: list.splits)

lemma ring_of_enc: "ring_of sf (enc_ring entries) = try_map (\<lambda>comps. coord_pair sf (PList comps)) entries"
  by (simp add: ring_of_def enc_ring_def try_map_map)

lemma polygon_of_enc:
  "polygon_of sf (enc_polygon rings) =
     try_map (try_map (\<lambda>comps. coord_pair sf (PList comps))) rings"
proof -
  have "(\<lambda>x. ring_of sf (enc_ring x)) = try_map (\<lambda>comps. coord_pair sf (PList comps))"
    by (rule ext) (rule ring_of_enc)
  then show ?thesis
    by (simp add: polygon_of_def enc_polygon_def try_map_map)
qed

lemma enc_polygon_not_None: "enc_polygon rings \<noteq> PNone"
  by (simp add: enc_polygon_def)

lemma dict_get_Nil: "dict_get [] k = PNone"
  by (simp add: dict_get_def dict_get_default_def)

lemma is_geometry_of_nonempty: "is_geometry_of kvs polys \<Longrightarrow> kvs \<noteq> []"
  by (auto simp: is_geometry_of_def dict_get_Nil)

lemma extract_polygons_geometry:
  assumes "is_geometry_of kvs polys"
  shows "extract_polygons sf (PDict kvs) =
           try_map (try_map (try_map (\<lambda>comps. coord_pair sf (PList comps)))) polys"
proof -
  have eq: "(\<lambda>x. polygon_of sf (enc_polygon x)) = try_map (try_map (\<lambda>comps. coord_pair sf (PList comps)))"
    by (rule ext) (rule polygon_of_enc)
  from assms consider
      rings where "dict_get kvs ''type'' = PStr ''Polygon''" "polys = [rings]"
        "dict_get kvs ''coordinates'' = enc_polygon rings"
    | "dict_get kvs ''type'' = PStr ''MultiPolygon''"
        "dict_get kvs ''coordinates'' = PList (map enc_polygon polys)"
    by (auto simp: is_geometry_of_def split: list.splits)
  then show ?thesis
  proof cases
    case 1
    then show ?thesis
      by (simp add: extract_polygons_def polygon_of_enc enc_polygon_not_None split: sum.splits)
  next
    case 2
    then show ?thesis
      by (simp add: extract_polygons_def try_map_map eq)
  qed
qed

lemma build_feature_extract_error:
  assumes "dict_get fkvs ''geometry'' = PDict kvs" "kvs \<noteq> []" "extract_polygons sf (PDict kvs) = Inl e"
  shows "build_feature sf (PDict fkvs) = Inl e"
  using assms by (simp add: build_feature_def)

lemma length_two_D: "length xs = 2 \<Longrightarrow> \<exists>a b. xs = [a, b]"
  by (cases xs rule: list.exhaust [case_product list.exhaust]) (auto split: list.splits simp: length_Suc_conv)

lemma coord_pair_error_component:
  assumes "coord_pair sf (PList [a, b]) = Inl e"
  shows "py_float sf a = Inl e \<or> py_float sf b = Inl e"
  using assms by (auto simp: coord_pair_two split: sum.splits)

lemma coord_pair_bad_component:
  assumes "py_float sf a = Inl e \<or> py_float sf b = Inl e"
  shows "\<exists>e'. coord_pair sf (PList [a, b]) = Inl e'"
  using assms by (auto simp: coord_pair_two split: sum.splits)

lemma unpack2_error: "unpack2 v = Inl e \<Longrightarrow> e = TypeError \<or> e = ValueError"
  by (cases v) (auto simp: unpack2_def split: list.splits)

lemma coord_pair_error_kind:
  assumes "coord_pair sf v = Inl e"
  shows "e = TypeError \<or> e = ValueError \<or> e = OverflowError"
proof (cases "unpack2 v")
  case (Inl e')
  with assms have "e' = e" by (simp add: coord_pair_def)
  with Inl show ?thesis using unpack2_error by blast
next
  case (Inr ab)
  obtain a b where ab: "ab = (a, b)" by (cases ab)
  from assms Inr ab have "py_float sf a = Inl e \<or> py_float sf b = Inl e"
    by (auto simp: coord_pair_def split: sum.splits)
  then show ?thesis using py_float_error by blast
qed

lemma coord_pair_converted:
  assumes "length entry = 2" "\<forall>c\<in>set entry. \<exists>r. py_float sf c = Inr r"
  shows "coord_pair sf (PList entry)
           = Inr (projr (py_float sf (entry ! 0)), projr (py_float sf (entry ! 1)))"
proof -
  from assms(1) obtain a b where ab: "entry = [a, b]" using length_two_D by blast
  with assms(2) obtain ra rb where "py_float sf a = Inr ra" "py_float sf b = Inr rb" by auto
  then show ?thesis by (simp add: ab coord_pair_two)
qed

lemma coord_pair_component_fails:
  assumes "c \<in> set entry" "py_float sf c = Inl e"
  shows "\<exists>e'. coord_pair sf (PList entry) = Inl e'"
proof (cases "length entry = 2")
  case True
  then obtain a b where ab: "entry = [a, b]" using length_two_D by blast
  with assms have "py_float sf a = Inl e \<or> py_float sf b = Inl e" by auto
  then show ?thesis unfolding ab by (rule coord_pair_bad_component)
next
  case False
  then show ?thesis by (simp add: coord_pair_not_two)
qed

lemma surviving_map_if:
  "surviving (map (\<lambda>x. if P x then None else Some (f x)) xs) = map f (filter (\<lambda>x. \<not> P x) xs)"
  by (induction xs) (simp_all add: surviving_def List.map_filter_simps)

lemma build_feature_dict:
  "build_feature sf (PDict kvs) =
     (case extract_polygons sf (record_geometry kvs) of
        Inl e \<Rightarrow> Inl e
      | Inr polys \<Rightarrow>
          if polys = [] then Inr None
          else Inr (Some
            \<lparr>bbox = polygon_bbox polys, polygons = polys,
             properties = dict_get_default kvs ''properties'' (PDict [])\<rparr>))"
  by (simp add: build_feature_def record_geometry_def Let_def)

section \<open>Containment in rings and polygons\<close>

text \<open>
  Claim C5. On the square ring \<open>[(0,0),(4,0),(4,4),(0,4)]\<close> the ring test answers true
  at the vertex \<open>(0,0)\<close>, at the mid-edge point \<open>(2,0)\<close> and at the interior point
  \<open>(2,2)\<close>, and false at \<open>(5,5)\<close> and \<open>(-1,2)\<close>. Every point of the boundary of
  the square, on any of its four edges, is classified as inside.
\<close>

theorem square_ring_boundary_inclusion:
  "point_in_ring (0, 0) [(0,0),(4,0),(4,4),(0,4)] = Inr True
   \<and> point_in_ring (2, 0) [(0,0),(4,0),(4,4),(0,4)] = Inr True
   \<and> point_in_ring (2, 2) [(0,0),(4,0),(4,4),(0,4)] = Inr True
   \<and> point_in_ring (5, 5) [(0,0),(4,0),(4,4),(0,4)] = Inr False
   \<and> point_in_ring (- 1, 2) [(0,0),(4,0),(4,4),(0,4)] = Inr False
   \<and> (\<forall>t. 0 \<le> t \<and> t \<le> 4 \<longrightarrow>
         point_in_ring (t, 0) [(0,0),(4,0),(4,4),(0,4)] = Inr True
       \<and> point_in_ring (4, t) [(0,0),(4,0),(4,4),(0,4)] = Inr True
       \<and> point_in_ring (t, 4) [(0,0),(4,0),(4,4),(0,4)] = Inr True
       \<and> point_in_ring (0, t) [(0,0),(4,0),(4,4),(0,4)] = Inr True)"
proof (intro conjI allI impI)
  show "point_in_ring (0, 0) [(0,0),(4,0),(4,4),(0,4)] = Inr True" by code_simp
  show "point_in_ring (2, 0) [(0,0),(4,0),(4,4),(0,4)] = Inr True" by code_simp
  show "point_in_ring (2, 2) [(0,0),(4,0),(4,4),(0,4)] = Inr True" by code_simp
  show "point_in_ring (5, 5) [(0,0),(4,0),(4,4),(0,4)] = Inr False" by code_simp
  show "point_in_ring (- 1, 2) [(0,0),(4,0),(4,4),(0,4)] = Inr False" by code_simp
next
  fix t :: real assume t: "0 \<le> t \<and> t \<le> 4"
  have u: "[0..<4] = [0, 1, 2, 3]" by (simp add: upt_rec)
  show "point_in_ring (t, 0) [(0,0),(4,0),(4,4),(0,4)] = Inr True"
    using t by (simp add: point_in_ring_def u point_on_segment_def default_epsilon_def)
  show "point_in_ring (4, t) [(0,0),(4,0),(4,4),(0,4)] = Inr True"
    using t by (simp add: point_in_ring_def u point_on_segment_def default_epsilon_def)
  show "point_in_ring (t, 4) [(0,0),(4,0),(4,4),(0,4)] = Inr True"
    using t by (simp add: point_in_ring_def u point_on_segment_def default_epsilon_def)
  show "point_in_ring (0, t) [(0,0),(4,0),(4,4),(0,4)] = Inr True"
    using t by (simp add: point_in_ring_def u point_on_segment_def default_epsilon_def)
qed

theorem square_ring_boundary_inclusion_witness:
  "(0::real) \<le> 3 \<and> (3::real) \<le> 4 \<and>
   point_in_ring (3, 0) [(0,0),(4,0),(4,4),(0,4)] = Inr True \<and>
   point_in_ring (4, 3) [(0,0),(4,0),(4,4),(0,4)] = Inr True \<and>
   point_in_ring (3, 4) [(0,0),(4,0),(4,4),(0,4)] = Inr True \<and>
   point_in_ring (0, 3) [(0,0),(4,0),(4,4),(0,4)] = Inr True"
proof -
  have h: "(0::real) \<le> 3 \<and> (3::real) \<le> 4" by simp
  from square_ring_boundary_inclusion have
    "\<forall>t::real. 0 \<le> t \<and> t \<le> 4 \<longrightarrow>
         point_in_ring (t, 0) [(0,0),(4,0),(4,4),(0,4)] = Inr True
       \<and> point_in_ring (4, t) [(0,0),(4,0),(4,4),(0,4)] = Inr True
       \<and> point_in_ring (t, 4) [(0,0),(4,0),(4,4),(0,4)] = Inr True
       \<and> point_in_ring (0, t) [(0,0),(4,0),(4,4),(0,4)] = Inr True"
    by blast
  from this [rule_format, OF h] h show ?thesis by blast
qed

text \<open>
  Claim C4. For every point and every non-empty polygon, \<^verbatim>\<open>point_in_polygon\<close> returns
  true exactly when the ring test is true on the outer ring \<^verbatim>\<open>polygon[0]\<close> and false on
  every hole of \<^verbatim>\<open>polygon[1:]\<close>. For the square \<open>[(0,0),(10,0),(10,10),(0,10)]\<close> with
  the hole \<open>[(4,4),(6,4),(6,6),(4,6)]\<close>, the points \<open>(5,5)\<close> and \<open>(4,4)\<close> are outside
  the polygon and \<open>(1,1)\<close> is inside.
\<close>

theorem point_in_polygon_outer_and_no_hole:
  "(polygon \<noteq> [] \<longrightarrow>
      (point_in_polygon point polygon = Inr True \<longleftrightarrow>
         point_in_ring point (hd polygon) = Inr True \<and>
         (\<forall>hole\<in>set (tl polygon). point_in_ring point hole = Inr False)))
   \<and> point_in_polygon (5, 5) [[(0,0),(10,0),(10,10),(0,10)], [(4,4),(6,4),(6,6),(4,6)]] = Inr False
   \<and> point_in_polygon (4, 4) [[(0,0),(10,0),(10,10),(0,10)], [(4,4),(6,4),(6,6),(4,6)]] = Inr False
   \<and> point_in_polygon (1, 1) [[(0,0),(10,0),(10,10),(0,10)], [(4,4),(6,4),(6,6),(4,6)]] = Inr True"
proof (intro conjI impI)
  assume "polygon \<noteq> []"
  then obtain outer holes where p: "polygon = outer # holes"
    by (cases polygon) auto
  show "point_in_polygon point polygon = Inr True \<longleftrightarrow>
         point_in_ring point (hd polygon) = Inr True \<and>
         (\<forall>hole\<in>set (tl polygon). point_in_ring point hole = Inr False)"
    unfolding p by (auto simp: holes_loop_True_iff split: sum.splits)
next
  show "point_in_polygon (5, 5) [[(0,0),(10,0),(10,10),(0,10)], [(4,4),(6,4),(6,6),(4,6)]] = Inr False"
    by code_simp
  show "point_in_polygon (4, 4) [[(0,0),(10,0),(10,10),(0,10)], [(4,4),(6,4),(6,6),(4,6)]] = Inr False"
    by code_simp
  show "point_in_polygon (1, 1) [[(0,0),(10,0),(10,10),(0,10)], [(4,4),(6,4),(6,6),(4,6)]] = Inr True"
    by code_simp
qed

theorem point_in_polygon_outer_and_no_hole_witness:
  "[[(0,0),(10,0),(10,10),(0,10)], [(4,4),(6,4),(6,6),(4,6)]] \<noteq> ([] :: polygon) \<and>
   point_in_polygon (1, 1) [[(0,0),(10,0),(10,10),(0,10)], [(4,4),(6,4),(6,6),(4,6)]] = Inr True \<and>
   point_in_ring (1, 1) [(0,0),(10,0),(10,10),(0,10)] = Inr True \<and>
   point_in_ring (1, 1) [(4,4),(6,4),(6,6),(4,6)] = Inr False"
proof -
  have ne: "[[(0,0),(10,0),(10,10),(0,10)], [(4,4),(6,4),(6,6),(4,6)]] \<noteq> ([] :: polygon)"
    by simp
  have inside: "point_in_polygon (1, 1) [[(0,0),(10,0),(10,10),(0,10)], [(4,4),(6,4),(6,6),(4,6)]] = Inr True"
    by code_simp
  from point_in_polygon_outer_and_no_hole
    [of "[[(0,0),(10,0),(10,10),(0,10)], [(4,4),(6,4),(6,6),(4,6)]]" "(1, 1)",
     THEN conjunct1, rule_format, OF ne]
  have "point_in_ring (1, 1) (hd [[(0,0),(10,0),(10,10),(0,10)], [(4,4),(6,4),(6,6),(4,6)]]) = Inr True \<and>
        (\<forall>hole\<in>set (tl [[(0,0),(10,0),(10,10),(0,10)], [(4,4),(6,4),(6,6),(4,6)]]).
           point_in_ring (1, 1) hole = Inr False)"
    using inside by blast
  then show ?thesis using ne inside by simp
qed

section \<open>Bounding boxes and pruning\<close>

text \<open>
  Claim C9. On an input with no point at all, \<^verbatim>\<open>polygon_bbox\<close> returns the degenerate
  box \<open>(+inf, +inf, -inf, -inf)\<close>. A feature that carries this box is rejected by the
  pruning test of \<^verbatim>\<open>lookup\<close> for every query point, so it is never matched: alone it
  gives \<^verbatim>\<open>None\<close>, and anywhere in an index the lookup is the same as without it. On
  an input with at least one point the box is finite with \<open>min_x \<le> max_x\<close> and
  \<open>min_y \<le> max_y\<close>.
\<close>

theorem polygon_bbox_degenerate_or_ordered:
  "(concat (concat polys) = [] \<longrightarrow> polygon_bbox polys = (PosInf, PosInf, NegInf, NegInf))
   \<and> (bbox f = (PosInf, PosInf, NegInf, NegInf) \<longrightarrow>
        outside_box p (bbox f) \<and> match_feature p f = Inr False \<and>
        lookup [f] p = Inr PNone \<and>
        lookup (pre @ f # post) p = lookup (pre @ post) p)
   \<and> (concat (concat polys) \<noteq> [] \<longrightarrow>
        (\<exists>lx ly hx hy. polygon_bbox polys = (Fin lx, Fin ly, Fin hx, Fin hy) \<and> lx \<le> hx \<and> ly \<le> hy))"
proof (intro conjI impI)
  assume "concat (concat polys) = []"
  then show "polygon_bbox polys = (PosInf, PosInf, NegInf, NegInf)"
    by (rule polygon_bbox_empty)
next
  assume d: "bbox f = (PosInf, PosInf, NegInf, NegInf)"
  then show "outside_box p (bbox f)" by (simp add: outside_degenerate_box)
  from d show m: "match_feature p f = Inr False" by (rule match_feature_degenerate)
  from lookup_skip [OF m, of "[]" "[]"] show "lookup [f] p = Inr PNone" by simp
  from m show "lookup (pre @ f # post) p = lookup (pre @ post) p" by (rule lookup_skip)
next
  assume "concat (concat polys) \<noteq> []"
  then show "\<exists>lx ly hx hy. polygon_bbox polys = (Fin lx, Fin ly, Fin hx, Fin hy) \<and> lx \<le> hx \<and> ly \<le> hy"
    by (rule polygon_bbox_nonempty)
qed

theorem polygon_bbox_degenerate_or_ordered_witness:
  "polygon_bbox [[[]]] = (PosInf, PosInf, NegInf, NegInf)
   \<and> outside_box (1, 2) (PosInf, PosInf, NegInf, NegInf)
   \<and> lookup [\<lparr>bbox = (PosInf, PosInf, NegInf, NegInf), polygons = [[]], properties = PDict []\<rparr>] (1, 2)
       = Inr PNone
   \<and> (\<exists>lx ly hx hy. polygon_bbox [[[(0, 0), (4, 0), (4, 4)]]] = (Fin lx, Fin ly, Fin hx, Fin hy)
         \<and> lx \<le> hx \<and> ly \<le> hy)"
proof -
  have e: "concat (concat [[[]]]) = ([] :: point list)" by simp
  have b: "bbox \<lparr>bbox = (PosInf, PosInf, NegInf, NegInf), polygons = [[]], properties = PDict []\<rparr>
             = (PosInf, PosInf, NegInf, NegInf)" by simp
  have n: "concat (concat [[[(0, 0), (4, 0), (4, 4)]]]) \<noteq> ([] :: point list)" by simp
  note t1 = polygon_bbox_degenerate_or_ordered
    [of "[[[]]]"
        "\<lparr>bbox = (PosInf, PosInf, NegInf, NegInf), polygons = [[]], properties = PDict []\<rparr>"
        "(1, 2)" "[]" "[]"]
  note t2 = polygon_bbox_degenerate_or_ordered
    [of "[[[(0, 0), (4, 0), (4, 4)]]]"
        "\<lparr>bbox = (PosInf, PosInf, NegInf, NegInf), polygons = [[]], properties = PDict []\<rparr>"
        "(1, 2)" "[]" "[]"]
  from t1 e have "polygon_bbox [[[]]] = (PosInf, PosInf, NegInf, NegInf)" by blast
  moreover from t1 b have "outside_box (1, 2) (PosInf, PosInf, NegInf, NegInf)" by simp
  moreover from t1 b have
    "lookup [\<lparr>bbox = (PosInf, PosInf, NegInf, NegInf), polygons = [[]], properties = PDict []\<rparr>] (1, 2)
       = Inr PNone" by blast
  moreover from t2 n have
    "\<exists>lx ly hx hy. polygon_bbox [[[(0, 0), (4, 0), (4, 4)]]] = (Fin lx, Fin ly, Fin hx, Fin hy)
         \<and> lx \<le> hx \<and> ly \<le> hy" by blast
  ultimately show ?thesis by blast
qed

text \<open>
  Claim C1, as the code has it. The claim that every point accepted by
  \<^verbatim>\<open>point_in_polygon\<close> lies in the bounding box fails in three ways. The segment test
  accepts points within its tolerance of an edge, here \<open>(2, - 1 / 2 ^ 40)\<close> just below
  the edge \<open>(0,0)-(4,0)\<close>. On an edge of length zero, such as the closing edge of a ring
  that repeats its first point, the segment test accepts every point, here \<open>(100, 100)\<close>.
  And a crossing is placed with the denominator \<open>y2 - y1 + 1e-12\<close>, which moves it
  beyond the edge when the edge descends by about that much: the point \<open>(3/2, 0)\<close> is on
  no edge of the triangle, is accepted by parity and lies to the right of the box.
\<close>

theorem containment_outside_bbox_counterexample:
  "point_in_polygon (2, - 1 / 2 ^ 40) [[(0, 0), (4, 0), (4, 4), (0, 4)]] = Inr True
   \<and> polygon_bbox [[[(0, 0), (4, 0), (4, 4), (0, 4)]]] = (Fin 0, Fin 0, Fin 4, Fin 4)
   \<and> outside_box (2, - 1 / 2 ^ 40) (Fin 0, Fin 0, Fin 4, Fin 4)
   \<and> point_in_polygon (100, 100) [[(0, 0), (4, 0), (4, 4), (0, 4), (0, 0)]] = Inr True
   \<and> polygon_bbox [[[(0, 0), (4, 0), (4, 4), (0, 4), (0, 0)]]] = (Fin 0, Fin 0, Fin 4, Fin 4)
   \<and> outside_box (100, 100) (Fin 0, Fin 0, Fin 4, Fin 4)
   \<and> point_in_polygon (3 / 2, 0) [[(0, 2 / 10 ^ 12), (1, 0), (0, - 1)]] = Inr True
   \<and> \<not> touches_edge (3 / 2, 0) [(0, 2 / 10 ^ 12), (1, 0), (0, - 1)]
   \<and> polygon_bbox [[[(0, 2 / 10 ^ 12), (1, 0), (0, - 1)]]] = (Fin 0, Fin (- 1), Fin 1, Fin (2 / 10 ^ 12))
   \<and> outside_box (3 / 2, 0) (Fin 0, Fin (- 1), Fin 1, Fin (2 / 10 ^ 12))"
  (is "?a1 \<and> ?a2 \<and> ?a3 \<and> ?b1 \<and> ?b2 \<and> ?b3 \<and> ?c1 \<and> ?c2 \<and> ?c3 \<and> ?c4")
proof (intro conjI)
  show ?a1 by code_simp
  show ?a2 by code_simp
  show ?a3 by code_simp
  show ?b1 by code_simp
  show ?b2 by code_simp
  show ?b3 by code_simp
  show ?c1 by code_simp
  show ?c2 by code_simp
  show ?c3 by code_simp
  show ?c4 by code_simp
qed

text \<open>
  Claim C1, amended. If \<^verbatim>\<open>point_in_polygon\<close> returns true for a point that the segment
  test accepts on no edge of the outer ring, then the point lies within the bounding
  box on the vertical axis, \<open>min_y \<le> y \<le> max_y\<close>, for the box of any list of polygons
  that holds the polygon. Nothing is said of the horizontal axis, nor of points that
  the segment test accepts.
\<close>

theorem parity_containment_within_bbox_height:
  assumes "point_in_polygon (x, y) polygon = Inr True"
      and "\<not> touches_edge (x, y) (hd polygon)"
      and "polygon \<in> set polys"
      and "polygon_bbox polys = (min_x, min_y, max_x, max_y)"
  shows "\<not> flt (Fin y) min_y \<and> \<not> flt max_y (Fin y)"
proof -
  from assms(1) obtain outer holes where p: "polygon = outer # holes"
    by (cases polygon) auto
  with assms(1) have "point_in_ring (x, y) outer = Inr True"
    by (auto split: sum.splits if_splits)
  then have loop: "ring_loop (x, y) outer [0 ..< length outer] False = Inr True"
    by (auto simp: point_in_ring_def split: if_splits)
  from ring_loop_True_edge [OF loop] obtain i where mem: "i \<in> set [0 ..< length outer]"
    and e: "point_on_segment (x, y) (outer ! i) (outer ! ((i + 1) mod length outer)) default_epsilon
         \<or> (snd (outer ! i) > y) \<noteq> (snd (outer ! ((i + 1) mod length outer)) > y)"
    by blast
  from mem have i: "i < length outer" by simp
  from assms(2) i have "\<not> point_on_segment (x, y) (outer ! i) (outer ! ((i + 1) mod length outer)) default_epsilon"
    by (auto simp: touches_edge_def p list_ex_iff)
  with e have cross: "(snd (outer ! i) > y) \<noteq> (snd (outer ! ((i + 1) mod length outer)) > y)"
    by blast
  let ?a = "outer ! i" and ?b = "outer ! ((i + 1) mod length outer)"
  from i have "0 < length outer" by (cases outer) auto
  then have "(i + 1) mod length outer < length outer" by (rule mod_less_divisor)
  with i have va: "?a \<in> set outer" and vb: "?b \<in> set outer" by (simp_all only: nth_mem)
  have om: "outer \<in> set polygon" by (simp add: p)
  have ia: "\<not> outside_box ?a (min_x, min_y, max_x, max_y)"
    using vertex_inside_polygon_bbox [OF va om assms(3)] by (simp add: assms(4))
  have ib: "\<not> outside_box ?b (min_x, min_y, max_x, max_y)"
    using vertex_inside_polygon_bbox [OF vb om assms(3)] by (simp add: assms(4))
  from ia have ya: "\<not> flt (Fin (snd ?a)) min_y \<and> \<not> flt max_y (Fin (snd ?a))"
    by (cases ?a) (simp add: outside_box_def)
  from ib have yb: "\<not> flt (Fin (snd ?b)) min_y \<and> \<not> flt max_y (Fin (snd ?b))"
    by (cases ?b) (simp add: outside_box_def)
  from cross consider "snd ?a \<le> y" "y < snd ?b" | "snd ?b \<le> y" "y < snd ?a"
    by fastforce
  then show ?thesis
  proof cases
    case 1
    from ya have "\<not> flt (Fin (snd ?a)) min_y" by (rule conjunct1)
    from not_flt_below [OF this 1(1)] have lo: "\<not> flt (Fin y) min_y" .
    from yb have "\<not> flt max_y (Fin (snd ?b))" by (rule conjunct2)
    from not_flt_above [OF this less_imp_le [OF 1(2)]] have "\<not> flt max_y (Fin y)" .
    with lo show ?thesis by (rule conjI)
  next
    case 2
    from yb have "\<not> flt (Fin (snd ?b)) min_y" by (rule conjunct1)
    from not_flt_below [OF this 2(1)] have lo: "\<not> flt (Fin y) min_y" .
    from ya have "\<not> flt max_y (Fin (snd ?a))" by (rule conjunct2)
    from not_flt_above [OF this less_imp_le [OF 2(2)]] have "\<not> flt max_y (Fin y)" .
    with lo show ?thesis by (rule conjI)
  qed
qed

theorem parity_containment_within_bbox_height_witness:
  "point_in_polygon (2, 2) [[(0, 0), (4, 0), (4, 4), (0, 4)]] = Inr True
   \<and> \<not> touches_edge (2, 2) [(0, 0), (4, 0), (4, 4), (0, 4)]
   \<and> polygon_bbox [[[(0, 0), (4, 0), (4, 4), (0, 4)]]] = (Fin 0, Fin 0, Fin 4, Fin 4)
   \<and> \<not> flt (Fin 2) (Fin 0) \<and> \<not> flt (Fin 4) (Fin 2)"
proof -
  have h1: "point_in_polygon (2, 2) [[(0, 0), (4, 0), (4, 4), (0, 4)]] = Inr True"
    by code_simp
  have h2: "\<not> touches_edge (2, 2) [(0, 0), (4, 0), (4, 4), (0, 4)]"
    by code_simp
  then have h2': "\<not> touches_edge (2, 2) (hd [[(0, 0), (4, 0), (4, 4), (0, 4)]])"
    by simp
  have h3: "[[(0, 0), (4, 0), (4, 4), (0, 4)]] \<in> set [[[(0, 0), (4, 0), (4, 4), (0, 4)]]]"
    by simp
  have h4: "polygon_bbox [[[(0, 0), (4, 0), (4, 4), (0, 4)]]] = (Fin 0, Fin 0, Fin 4, Fin 4)"
    by code_simp
  from parity_containment_within_bbox_height [OF h1 h2' h3 h4] h1 h2 h4
  show ?thesis by blast
qed

section \<open>Geometry that yields no polygon\<close>

text \<open>
  Claim C6. For a geometry record whose type is missing, or is any value other than
  \<^verbatim>\<open>"Polygon"\<close> and \<^verbatim>\<open>"MultiPolygon"\<close>, or whose coordinates are missing,
  \<^verbatim>\<open>extract_polygons\<close> returns the empty list and does not raise. A feature record
  with such a geometry is left out of the index: alone it gives the empty index, and
  anywhere in a sequence of records the construction does what it does without it.
\<close>

theorem unsupported_geometry_is_skipped:
  assumes "map_of kvs ''type'' = None
         \<or> (dict_get kvs ''type'' \<noteq> PStr ''Polygon'' \<and> dict_get kvs ''type'' \<noteq> PStr ''MultiPolygon'')
         \<or> map_of kvs ''coordinates'' = None"
  shows "extract_polygons sf (PDict kvs) = Inr []
       \<and> (dict_get fkvs ''geometry'' = PDict kvs \<longrightarrow>
            build_feature sf (PDict fkvs) = Inr None
          \<and> GeoFeatureIndex sf [PDict fkvs] = Inr []
          \<and> init_loop sf (pre @ PDict fkvs # post) acc = init_loop sf (pre @ post) acc
          \<and> GeoFeatureIndex sf (pre @ PDict fkvs # post) = GeoFeatureIndex sf (pre @ post))"
proof (intro conjI impI)
  show e: "extract_polygons sf (PDict kvs) = Inr []"
    using assms by (rule extract_polygons_unsupported)
  assume g: "dict_get fkvs ''geometry'' = PDict kvs"
  from g e show b: "build_feature sf (PDict fkvs) = Inr None"
    by (rule build_feature_no_polygons)
  from b show "GeoFeatureIndex sf [PDict fkvs] = Inr []"
    by (simp add: GeoFeatureIndex_def)
  from b show "init_loop sf (pre @ PDict fkvs # post) acc = init_loop sf (pre @ post) acc"
    by (rule init_loop_skip)
  from b show "GeoFeatureIndex sf (pre @ PDict fkvs # post) = GeoFeatureIndex sf (pre @ post)"
    unfolding GeoFeatureIndex_def by (rule init_loop_skip)
qed

theorem unsupported_geometry_is_skipped_witness:
  "dict_get [(''type'', PStr ''Point''), (''coordinates'', PList [PFloat 1, PFloat 1])] ''type'' \<noteq> PStr ''Polygon''
   \<and> dict_get [(''type'', PStr ''Point''), (''coordinates'', PList [PFloat 1, PFloat 1])] ''type'' \<noteq> PStr ''MultiPolygon''
   \<and> extract_polygons \<lparr>float_of_str = \<lambda>s. None, float_of_int = \<lambda>i. Some (real_of_int i)\<rparr> (PDict [(''type'', PStr ''Point''), (''coordinates'', PList [PFloat 1, PFloat 1])]) = Inr []
   \<and> GeoFeatureIndex \<lparr>float_of_str = \<lambda>s. None, float_of_int = \<lambda>i. Some (real_of_int i)\<rparr> [PDict 
     [(''geometry'', PDict [(''type'', PStr ''Point''), (''coordinates'', PList [PFloat 1, PFloat 1])]),
             (''properties'', PDict [(''name'', PStr ''P'')])]] = Inr []
   \<and> GeoFeatureIndex \<lparr>float_of_str = \<lambda>s. None, float_of_int = \<lambda>i. Some (real_of_int i)\<rparr>
     [PDict [(''geometry'',
               PDict [(''type'', PStr ''Polygon''),
                      (''coordinates'', PList
                        [PList [PList [PFloat 0, PFloat 0], PList [PFloat 10, PFloat 0], PList [PFloat 10, PFloat 10], PList [PFloat 0, PFloat 10]]])]),
             (''properties'', PDict [(''name'', PStr ''North'')])],
      PDict
        [(''geometry'', PDict [(''type'', PStr ''Point''), (''coordinates'', PList [PFloat 1, PFloat 1])]),
             (''properties'', PDict [(''name'', PStr ''P'')])],
      PDict [(''geometry'',
               PDict [(''type'', PStr ''Polygon''),
                      (''coordinates'', PList
                        [PList [PList [PFloat 0, PFloat (- 10)], PList [PFloat 10, PFloat (- 10)], PList [PFloat 10, PFloat 0], PList [PFloat 0, PFloat 0]]])]),
             (''properties'', PDict [(''name'', PStr ''South'')])]]
   = GeoFeatureIndex \<lparr>float_of_str = \<lambda>s. None, float_of_int = \<lambda>i. Some (real_of_int i)\<rparr>
     [PDict [(''geometry'',
               PDict [(''type'', PStr ''Polygon''),
                      (''coordinates'', PList
                        [PList [PList [PFloat 0, PFloat 0], PList [PFloat 10, PFloat 0], PList [PFloat 10, PFloat 10], PList [PFloat 0, PFloat 10]]])]),
             (''properties'', PDict [(''name'', PStr ''North'')])],
      PDict [(''geometry'',
               PDict [(''type'', PStr ''Polygon''),
                      (''coordinates'', PList
                        [PList [PList [PFloat 0, PFloat (- 10)], PList [PFloat 10, PFloat (- 10)], PList [PFloat 10, PFloat 0], PList [PFloat 0, PFloat 0]]])]),
             (''properties'', PDict [(''name'', PStr ''South'')])]]"
  (is "?t1 \<and> ?t2 \<and> extract_polygons ?sf (PDict ?g) = Inr [] \<and> GeoFeatureIndex ?sf [PDict ?fkvs] = Inr []
       \<and> GeoFeatureIndex ?sf [?n, PDict ?fkvs, ?s] = GeoFeatureIndex ?sf [?n, ?s]")
proof -
  have ty: "?t1 \<and> ?t2"
    by (simp add: dict_get_def dict_get_default_def)
  then have hyp: "map_of ?g ''type'' = None
     \<or> (dict_get ?g ''type'' \<noteq> PStr ''Polygon'' \<and> dict_get ?g ''type'' \<noteq> PStr ''MultiPolygon'')
     \<or> map_of ?g ''coordinates'' = None"
    by blast
  have g: "dict_get ?fkvs ''geometry'' = PDict ?g"
    by (simp add: dict_get_def dict_get_default_def)
  note t = unsupported_geometry_is_skipped [OF hyp, of ?sf ?fkvs "[?n]" "[?s]"]
  from t have "extract_polygons ?sf (PDict ?g) = Inr []" by blast
  moreover from t g have "GeoFeatureIndex ?sf [PDict ?fkvs] = Inr []" by blast
  moreover from t g have
    "GeoFeatureIndex ?sf ([?n] @ PDict ?fkvs # [?s]) = GeoFeatureIndex ?sf ([?n] @ [?s])"
    by blast
  ultimately show ?thesis using ty by simp
qed

text \<open>
  Claim C10. The geometry \<^verbatim>\<open>{"type": "Polygon", "coordinates": []}\<close> extracts to one
  polygon with no ring, so a record with this geometry is kept in the index, with the
  degenerate bounding box. No lookup returns its properties: the pruning test rejects
  every point (and \<^verbatim>\<open>point_in_polygon\<close> is false on a polygon without rings), so a
  lookup on any index that holds the feature is the lookup on the index without it.
\<close>

theorem empty_polygon_feature_is_kept_but_never_matched:
  assumes "dict_get fkvs ''geometry'' = PDict [(''type'', PStr ''Polygon''), (''coordinates'', PList [])]"
      and "f = \<lparr>bbox = (PosInf, PosInf, NegInf, NegInf), polygons = [[]],
                properties = dict_get_default fkvs ''properties'' (PDict [])\<rparr>"
  shows "extract_polygons sf (PDict [(''type'', PStr ''Polygon''), (''coordinates'', PList [])]) = Inr [[]]
       \<and> GeoFeatureIndex sf [PDict fkvs] = Inr [f]
       \<and> init_loop sf (PDict fkvs # post) acc = init_loop sf post (acc @ [f])
       \<and> polygon_bbox [[]] = (PosInf, PosInf, NegInf, NegInf)
       \<and> point_in_polygon p [] = Inr False
       \<and> match_feature p f = Inr False
       \<and> lookup [f] p = Inr PNone
       \<and> lookup (before @ f # after) p = lookup (before @ after) p"
proof (intro conjI)
  show "extract_polygons sf (PDict [(''type'', PStr ''Polygon''), (''coordinates'', PList [])]) = Inr [[]]"
    by (simp add: extract_polygons_def polygon_of_def dict_get_def dict_get_default_def)
  have b: "build_feature sf (PDict fkvs) = Inr (Some f)"
    using build_feature_empty_polygon [OF assms(1)] assms(2) by simp
  then show "GeoFeatureIndex sf [PDict fkvs] = Inr [f]"
    by (simp add: GeoFeatureIndex_def)
  from b show "init_loop sf (PDict fkvs # post) acc = init_loop sf post (acc @ [f])"
    by simp
  show "polygon_bbox [[]] = (PosInf, PosInf, NegInf, NegInf)"
    by (simp add: polygon_bbox_def)
  show "point_in_polygon p [] = Inr False" by simp
  have "bbox f = (PosInf, PosInf, NegInf, NegInf)" using assms(2) by simp
  then show m: "match_feature p f = Inr False" by (rule match_feature_degenerate)
  from lookup_skip [OF m, of "[]" "[]"] show "lookup [f] p = Inr PNone" by simp
  from m show "lookup (before @ f # after) p = lookup (before @ after) p" by (rule lookup_skip)
qed

theorem empty_polygon_feature_is_kept_but_never_matched_witness:
  "GeoFeatureIndex \<lparr>float_of_str = \<lambda>s. None, float_of_int = \<lambda>i. Some (real_of_int i)\<rparr> [PDict 
     [(''geometry'', PDict [(''type'', PStr ''Polygon''), (''coordinates'', PList [])]),
       (''properties'', PDict [(''name'', PStr ''E'')])]] = Inr [
     \<lparr>bbox = (PosInf, PosInf, NegInf, NegInf), polygons = [[]],
       properties = PDict [(''name'', PStr ''E'')]\<rparr>]
   \<and> lookup [
     \<lparr>bbox = (PosInf, PosInf, NegInf, NegInf), polygons = [[]],
       properties = PDict [(''name'', PStr ''E'')]\<rparr>] (0, 0) = Inr PNone
   \<and> lookup
     [\<lparr>bbox = (Fin 0, Fin 0, Fin 10, Fin 10),
       polygons = [[[(0, 0), (10, 0), (10, 10), (0, 10)]]],
       properties = PDict [(''name'', PStr ''North'')]\<rparr>,
      \<lparr>bbox = (PosInf, PosInf, NegInf, NegInf), polygons = [[]],
       properties = PDict [(''name'', PStr ''E'')]\<rparr>,
      \<lparr>bbox = (Fin 0, Fin (- 10), Fin 10, Fin 0),
       polygons = [[[(0, - 10), (10, - 10), (10, 0), (0, 0)]]],
       properties = PDict [(''name'', PStr ''South'')]\<rparr>]
     (5, - 5) = Inr (PDict [(''name'', PStr ''South'')])"
  (is "GeoFeatureIndex ?sf [PDict ?fkvs] = Inr [?fe] \<and> lookup [?fe] (0, 0) = Inr PNone
       \<and> lookup [?fn, ?fe, ?fs] (5, - 5) = Inr ?south")
proof -
  have g: "dict_get ?fkvs ''geometry'' = PDict [(''type'', PStr ''Polygon''), (''coordinates'', PList [])]"
    by (simp add: dict_get_def dict_get_default_def)
  have fe: "?fe = \<lparr>bbox = (PosInf, PosInf, NegInf, NegInf), polygons = [[]],
                properties = dict_get_default ?fkvs ''properties'' (PDict [])\<rparr>"
    by (simp add: dict_get_default_def)
  note t = empty_polygon_feature_is_kept_but_never_matched [OF g fe]
  have s: "lookup ([?fn] @ [?fs]) (5, - 5) = Inr ?south"
    by code_simp
  from t [of ?sf "[]" "[]" "(0, 0)" "[]" "[]"]
  have "GeoFeatureIndex ?sf [PDict ?fkvs] = Inr [?fe] \<and> lookup [?fe] (0, 0) = Inr PNone"
    by blast
  moreover from t [of ?sf "[]" "[]" "(5, - 5)" "[?fn]" "[?fs]"] s
  have "lookup ([?fn] @ ?fe # [?fs]) (5, - 5) = Inr ?south"
    by simp
  ultimately show ?thesis by simp
qed

section \<open>Construction and tie-break\<close>

text \<open>
  Claim C8, as the code has it. The claim that one bad record never aborts the
  construction fails: a record whose extraction raises ends the construction with that
  exception, here a coordinate \<^verbatim>\<open>None\<close> in the first of two records.
\<close>

theorem bad_feature_aborts_construction_counterexample:
  "GeoFeatureIndex \<lparr>float_of_str = \<lambda>s. None, float_of_int = \<lambda>i. Some (real_of_int i)\<rparr>
     [PDict [(''geometry'',
               PDict [(''type'', PStr ''Polygon''),
                      (''coordinates'', PList
                        [PList [PList [PNone, PFloat 0], PList [PFloat 1, PFloat 0], PList [PFloat 1, PFloat 1]]])]),
             (''properties'', PDict [(''name'', PStr ''Bad'')])],
      PDict [(''geometry'',
               PDict [(''type'', PStr ''Polygon''),
                      (''coordinates'', PList
                        [PList [PList [PFloat 0, PFloat 0], PList [PFloat 10, PFloat 0], PList [PFloat 10, PFloat 10], PList [PFloat 0, PFloat 10]]])]),
             (''properties'', PDict [(''name'', PStr ''North'')])]]
   = Inl TypeError
   \<and> GeoFeatureIndex \<lparr>float_of_str = \<lambda>s. None, float_of_int = \<lambda>i. Some (real_of_int i)\<rparr>
     [PDict [(''geometry'',
               PDict [(''type'', PStr ''Polygon''),
                      (''coordinates'', PList
                        [PList [PList [PFloat 0, PFloat 0], PList [PFloat 10, PFloat 0], PList [PFloat 10, PFloat 10], PList [PFloat 0, PFloat 10]]])]),
             (''properties'', PDict [(''name'', PStr ''North'')])]]
   = Inr
     [\<lparr>bbox = (Fin 0, Fin 0, Fin 10, Fin 10),
       polygons = [[[(0, 0), (10, 0), (10, 10), (0, 10)]]],
       properties = PDict [(''name'', PStr ''North'')]\<rparr>]"
  (is "?aborted \<and> ?alone")
proof (intro conjI)
  show ?aborted by code_simp
  show ?alone by code_simp
qed

text \<open>
  Claim C8, amended. For every sequence of feature records, each a dictionary: when
  \<^verbatim>\<open>extract_polygons\<close> raises on the geometry of none of them, the construction
  succeeds, it skips exactly the records whose geometry extracts to no polygon, and the
  index holds, in the order of the records, one feature for every other record, with
  the polygons extracted from it, their bounding box and its properties. When the
  extraction raises on one record and on none before it, the construction of the whole
  index raises that exception, whatever the later records are.
\<close>

theorem construction_skips_empty_extraction_only:
  "((\<forall>kvs\<in>set items. \<exists>polys. extract_polygons sf (record_geometry kvs) = Inr polys) \<longrightarrow>
      GeoFeatureIndex sf (map PDict items)
        = Inr (map (\<lambda>kvs. \<lparr>bbox = polygon_bbox (projr (extract_polygons sf (record_geometry kvs))),
                            polygons = projr (extract_polygons sf (record_geometry kvs)),
                            properties = dict_get_default kvs ''properties'' (PDict [])\<rparr>)
                 (filter (\<lambda>kvs. extract_polygons sf (record_geometry kvs) \<noteq> Inr []) items)))
   \<and> ((\<forall>kvs\<in>set earlier. \<exists>polys. extract_polygons sf (record_geometry kvs) = Inr polys) \<and>
       extract_polygons sf (record_geometry bad) = Inl e \<longrightarrow>
      GeoFeatureIndex sf (map PDict earlier @ PDict bad # later) = Inl e)"
proof (intro conjI impI)
  let ?x = "\<lambda>kvs. extract_polygons sf (record_geometry kvs)"
  let ?f = "\<lambda>kvs. \<lparr>bbox = polygon_bbox (projr (?x kvs)), polygons = projr (?x kvs),
                    properties = dict_get_default kvs ''properties'' (PDict [])\<rparr>"
  assume ok: "\<forall>kvs\<in>set items. \<exists>polys. ?x kvs = Inr polys"
  have "build_feature sf (PDict kvs) = Inr (if ?x kvs = Inr [] then None else Some (?f kvs))"
    if "kvs \<in> set items" for kvs
  proof -
    from ok that obtain polys where "?x kvs = Inr polys" by blast
    then show ?thesis by (simp add: build_feature_dict)
  qed
  then have "map (build_feature sf) (map PDict items)
      = map Inr (map (\<lambda>kvs. if ?x kvs = Inr [] then None else Some (?f kvs)) items)"
    by simp
  then have "GeoFeatureIndex sf (map PDict items)
      = Inr (surviving (map (\<lambda>kvs. if ?x kvs = Inr [] then None else Some (?f kvs)) items))"
    by (rule GeoFeatureIndex_outcomes)
  then show "GeoFeatureIndex sf (map PDict items)
      = Inr (map ?f (filter (\<lambda>kvs. ?x kvs \<noteq> Inr []) items))"
    by (simp only: surviving_map_if)
next
  let ?x = "\<lambda>kvs. extract_polygons sf (record_geometry kvs)"
  assume a: "(\<forall>kvs\<in>set earlier. \<exists>polys. ?x kvs = Inr polys) \<and> ?x bad = Inl e"
  have "\<exists>fo. build_feature sf (PDict kvs) = Inr fo" if "kvs \<in> set earlier" for kvs
  proof -
    from a that obtain polys where "?x kvs = Inr polys" by blast
    then show ?thesis by (simp add: build_feature_dict)
  qed
  then have all: "\<forall>r\<in>set (map PDict earlier). \<exists>fo. build_feature sf r = Inr fo" by auto
  have "\<exists>os. try_map (build_feature sf) (map PDict earlier) = Inr os"
  proof (cases "try_map (build_feature sf) (map PDict earlier)")
    case (Inl e')
    from try_map_Inl_D [OF Inl] obtain r where "r \<in> set (map PDict earlier)"
      "build_feature sf r = Inl e'" by blast
    with all show ?thesis by fastforce
  next
    case (Inr os)
    then show ?thesis by blast
  qed
  then obtain acc where "init_loop sf (map PDict earlier) [] = Inr acc"
    by (auto simp: init_loop_try_map)
  moreover from a have "build_feature sf (PDict bad) = Inl e"
    by (simp add: build_feature_dict)
  ultimately show "GeoFeatureIndex sf (map PDict earlier @ PDict bad # later) = Inl e"
    unfolding GeoFeatureIndex_def by (rule init_loop_abort)
qed

theorem construction_skips_empty_extraction_only_witness:
  "GeoFeatureIndex \<lparr>float_of_str = \<lambda>s. None, float_of_int = \<lambda>i. Some (real_of_int i)\<rparr>
     (map PDict
     [[(''geometry'',
        PDict [(''type'', PStr ''Polygon''),
               (''coordinates'', PList
                 [PList [PList [PFloat 0, PFloat 0], PList [PFloat 10, PFloat 0], PList [PFloat 10, PFloat 10], PList [PFloat 0, PFloat 10]]])]),
       (''properties'', PDict [(''name'', PStr ''North'')])],
      [(''geometry'', PDict [(''type'', PStr ''Point''), (''coordinates'', PList [PFloat 1, PFloat 1])]),
       (''properties'', PDict [(''name'', PStr ''P'')])],
      [(''geometry'',
        PDict [(''type'', PStr ''Polygon''),
               (''coordinates'', PList
                 [PList [PList [PFloat 0, PFloat (- 10)], PList [PFloat 10, PFloat (- 10)], PList [PFloat 10, PFloat 0], PList [PFloat 0, PFloat 0]]])]),
       (''properties'', PDict [(''name'', PStr ''South'')])]])
   = Inr
     [\<lparr>bbox = (Fin 0, Fin 0, Fin 10, Fin 10),
       polygons = [[[(0, 0), (10, 0), (10, 10), (0, 10)]]],
       properties = PDict [(''name'', PStr ''North'')]\<rparr>,
      \<lparr>bbox = (Fin 0, Fin (- 10), Fin 10, Fin 0),
       polygons = [[[(0, - 10), (10, - 10), (10, 0), (0, 0)]]],
       properties = PDict [(''name'', PStr ''South'')]\<rparr>]
   \<and> GeoFeatureIndex \<lparr>float_of_str = \<lambda>s. None, float_of_int = \<lambda>i. Some (real_of_int i)\<rparr>
     [PDict
      [(''geometry'',
        PDict [(''type'', PStr ''Polygon''),
               (''coordinates'', PList
                 [PList [PList [PFloat 0, PFloat 0], PList [PFloat 10, PFloat 0], PList [PFloat 10, PFloat 10], PList [PFloat 0, PFloat 10]]])]),
       (''properties'', PDict [(''name'', PStr ''North'')])],
      PDict
      [(''geometry'',
        PDict [(''type'', PStr ''Polygon''),
               (''coordinates'', PList
                 [PList [PList [PFloat 0, PFloat 0], PList [PFloat 4, PNone], PList [PFloat 4, PFloat 4]]])]),
       (''properties'', PDict [(''name'', PStr ''Bad'')])],
      PDict
      [(''geometry'',
        PDict [(''type'', PStr ''Polygon''),
               (''coordinates'', PList
                 [PList [PList [PFloat 0, PFloat (- 10)], PList [PFloat 10, PFloat (- 10)], PList [PFloat 10, PFloat 0], PList [PFloat 0, PFloat 0]]])]),
       (''properties'', PDict [(''name'', PStr ''South'')])]]
   = Inl TypeError"
  (is "GeoFeatureIndex ?sf (map PDict [?n, ?p, ?s]) = Inr [?fn, ?fs]
       \<and> GeoFeatureIndex ?sf [PDict ?n, PDict ?bad, PDict ?s] = Inl TypeError")
proof -
  have xn: "extract_polygons ?sf (record_geometry ?n) = Inr [[[(0, 0), (10, 0), (10, 10), (0, 10)]]]"
    by code_simp
  have xp: "extract_polygons ?sf (record_geometry ?p) = Inr []"
    by code_simp
  have xs: "extract_polygons ?sf (record_geometry ?s) = Inr [[[(0, - 10), (10, - 10), (10, 0), (0, 0)]]]"
    by code_simp
  have xb: "extract_polygons ?sf (record_geometry ?bad) = Inl TypeError"
    by code_simp
  have bn: "polygon_bbox [[[(0, 0), (10, 0), (10, 10), (0, 10)]]] = (Fin 0, Fin 0, Fin 10, Fin 10)"
    by code_simp
  have bs: "polygon_bbox [[[(0, - 10), (10, - 10), (10, 0), (0, 0)]]] = (Fin 0, Fin (- 10), Fin 10, Fin 0)"
    by code_simp
  have ok: "\<forall>kvs\<in>set [?n, ?p, ?s]. \<exists>polys. extract_polygons ?sf (record_geometry kvs) = Inr polys"
    using xn xp xs by simp
  from construction_skips_empty_extraction_only [of "[?n, ?p, ?s]" ?sf] ok
  have "GeoFeatureIndex ?sf (map PDict [?n, ?p, ?s])
      = Inr (map (\<lambda>kvs. \<lparr>bbox = polygon_bbox (projr (extract_polygons ?sf (record_geometry kvs))),
                          polygons = projr (extract_polygons ?sf (record_geometry kvs)),
                          properties = dict_get_default kvs ''properties'' (PDict [])\<rparr>)
               (filter (\<lambda>kvs. extract_polygons ?sf (record_geometry kvs) \<noteq> Inr []) [?n, ?p, ?s]))"
    by blast
  then have one: "GeoFeatureIndex ?sf (map PDict [?n, ?p, ?s]) = Inr [?fn, ?fs]"
    by (simp add: xn xp xs bn bs dict_get_default_def)
  have ok1: "\<forall>kvs\<in>set [?n]. \<exists>polys. extract_polygons ?sf (record_geometry kvs) = Inr polys"
    using xn by simp
  from construction_skips_empty_extraction_only [of _ ?sf "[?n]" ?bad TypeError "[PDict ?s]"] ok1 xb
  have "GeoFeatureIndex ?sf (map PDict [?n] @ PDict ?bad # [PDict ?s]) = Inl TypeError"
    by blast
  with one show ?thesis by simp
qed

text \<open>
  Claim C3, as the code has it. The claim that lookup returns the earliest feature whose
  geometry contains the point fails in two ways. First, the pruning test can reject a
  feature whose polygon test accepts the point: \<open>(2, - 1 / 2 ^ 40)\<close> lies just below
  the edge \<open>(0,0)-(4,0)\<close> of the square of feature A, within the tolerance of the
  segment test, so \<^verbatim>\<open>point_in_polygon\<close> is true for A and for B; A is first in the
  index, its bounding box rejects the point, and lookup returns the properties of B.
  Second, an earlier feature can raise: the first edge of feature Z descends by exactly
  \<open>1e-12\<close> across the ray of \<open>(0, 0)\<close>, the division raises
  \<^verbatim>\<open>ZeroDivisionError\<close>, and lookup returns nothing although B and C contain the
  point.
\<close>

theorem lookup_not_earliest_containing_counterexample:
  "GeoFeatureIndex \<lparr>float_of_str = \<lambda>s. None, float_of_int = \<lambda>i. Some (real_of_int i)\<rparr>
     [PDict [(''geometry'',
               PDict [(''type'', PStr ''Polygon''),
                      (''coordinates'', PList
                        [PList [PList [PFloat 0, PFloat 0], PList [PFloat 4, PFloat 0], PList [PFloat 4, PFloat 4], PList [PFloat 0, PFloat 4]]])]),
             (''properties'', PDict [(''name'', PStr ''A'')])],
      PDict [(''geometry'',
               PDict [(''type'', PStr ''Polygon''),
                      (''coordinates'', PList
                        [PList [PList [PFloat (- 10), PFloat (- 10)], PList [PFloat 10, PFloat (- 10)], PList [PFloat 10, PFloat 10], PList [PFloat (- 10), PFloat 10]]])]),
             (''properties'', PDict [(''name'', PStr ''B'')])]]
   = Inr
     [\<lparr>bbox = (Fin 0, Fin 0, Fin 4, Fin 4),
       polygons = [[[(0, 0), (4, 0), (4, 4), (0, 4)]]],
       properties = PDict [(''name'', PStr ''A'')]\<rparr>,
      \<lparr>bbox = (Fin (- 10), Fin (- 10), Fin 10, Fin 10),
       polygons = [[[(- 10, - 10), (10, - 10), (10, 10), (- 10, 10)]]],
       properties = PDict [(''name'', PStr ''B'')]\<rparr>]
   \<and> point_in_polygon (2, - 1 / 2 ^ 40) [[(0, 0), (4, 0), (4, 4), (0, 4)]] = Inr True
   \<and> point_in_polygon (2, - 1 / 2 ^ 40) [[(- 10, - 10), (10, - 10), (10, 10), (- 10, 10)]] = Inr True
   \<and> lookup
     [\<lparr>bbox = (Fin 0, Fin 0, Fin 4, Fin 4),
       polygons = [[[(0, 0), (4, 0), (4, 4), (0, 4)]]],
       properties = PDict [(''name'', PStr ''A'')]\<rparr>,
      \<lparr>bbox = (Fin (- 10), Fin (- 10), Fin 10, Fin 10),
       polygons = [[[(- 10, - 10), (10, - 10), (10, 10), (- 10, 10)]]],
       properties = PDict [(''name'', PStr ''B'')]\<rparr>]
     (2, - 1 / 2 ^ 40) = Inr (PDict [(''name'', PStr ''B'')])
   \<and> GeoFeatureIndex \<lparr>float_of_str = \<lambda>s. None, float_of_int = \<lambda>i. Some (real_of_int i)\<rparr>
     [PDict [(''geometry'',
               PDict [(''type'', PStr ''Polygon''),
                      (''coordinates'', PList
                        [PList [PList [PFloat 10, PFloat (1 / 10 ^ 12)], PList [PFloat 20, PFloat 0], PList [PFloat 20, PFloat (- 10)], PList [PFloat (- 10), PFloat (- 10)], PList [PFloat (- 10), PFloat 10], PList [PFloat 10, PFloat 10]]])]),
             (''properties'', PDict [(''name'', PStr ''Z'')])],
      PDict [(''geometry'',
               PDict [(''type'', PStr ''Polygon''),
                      (''coordinates'', PList
                        [PList [PList [PFloat (- 10), PFloat (- 10)], PList [PFloat 10, PFloat (- 10)], PList [PFloat 10, PFloat 10], PList [PFloat (- 10), PFloat 10]]])]),
             (''properties'', PDict [(''name'', PStr ''B'')])],
      PDict [(''geometry'',
               PDict [(''type'', PStr ''Polygon''),
                      (''coordinates'', PList
                        [PList [PList [PFloat (- 5), PFloat (- 5)], PList [PFloat 5, PFloat (- 5)], PList [PFloat 5, PFloat 5], PList [PFloat (- 5), PFloat 5]]])]),
             (''properties'', PDict [(''name'', PStr ''C'')])]]
   = Inr
     [\<lparr>bbox = (Fin (- 10), Fin (- 10), Fin 20, Fin 10),
       polygons = [[[(10, 1 / 10 ^ 12), (20, 0), (20, - 10), (- 10, - 10), (- 10, 10), (10, 10)]]],
       properties = PDict [(''name'', PStr ''Z'')]\<rparr>,
      \<lparr>bbox = (Fin (- 10), Fin (- 10), Fin 10, Fin 10),
       polygons = [[[(- 10, - 10), (10, - 10), (10, 10), (- 10, 10)]]],
       properties = PDict [(''name'', PStr ''B'')]\<rparr>,
      \<lparr>bbox = (Fin (- 5), Fin (- 5), Fin 5, Fin 5),
       polygons = [[[(- 5, - 5), (5, - 5), (5, 5), (- 5, 5)]]],
       properties = PDict [(''name'', PStr ''C'')]\<rparr>]
   \<and> point_in_polygon (0, 0) [[(- 10, - 10), (10, - 10), (10, 10), (- 10, 10)]] = Inr True
   \<and> point_in_polygon (0, 0) [[(- 5, - 5), (5, - 5), (5, 5), (- 5, 5)]] = Inr True
   \<and> lookup
     [\<lparr>bbox = (Fin (- 10), Fin (- 10), Fin 20, Fin 10),
       polygons = [[[(10, 1 / 10 ^ 12), (20, 0), (20, - 10), (- 10, - 10), (- 10, 10), (10, 10)]]],
       properties = PDict [(''name'', PStr ''Z'')]\<rparr>,
      \<lparr>bbox = (Fin (- 10), Fin (- 10), Fin 10, Fin 10),
       polygons = [[[(- 10, - 10), (10, - 10), (10, 10), (- 10, 10)]]],
       properties = PDict [(''name'', PStr ''B'')]\<rparr>,
      \<lparr>bbox = (Fin (- 5), Fin (- 5), Fin 5, Fin 5),
       polygons = [[[(- 5, - 5), (5, - 5), (5, 5), (- 5, 5)]]],
       properties = PDict [(''name'', PStr ''C'')]\<rparr>]
     (0, 0) = Inl ZeroDivisionError"
  (is "?built \<and> ?inA \<and> ?inB \<and> ?result \<and> ?built' \<and> ?inB' \<and> ?inC' \<and> ?raised")
proof (intro conjI)
  show ?built by code_simp
  show ?inA by code_simp
  show ?inB by code_simp
  show ?result by code_simp
  show ?built' by code_simp
  show ?inB' by code_simp
  show ?inC' by code_simp
  show ?raised by code_simp
qed

text \<open>
  Claim C3, amended. The index holds the surviving features in the order of their
  records, and lookup returns the properties of the first feature of the index that
  matches the point, that is, whose bounding box admits the point and one of whose
  polygons contains it, when every feature before it is examined without a match and
  without an exception. Later features that contain the point as well do not matter.
\<close>

theorem lookup_returns_first_matching_feature:
  assumes "GeoFeatureIndex sf records = Inr idx"
  shows "(\<exists>outcomes. map (build_feature sf) records = map Inr outcomes \<and> idx = surviving outcomes)
       \<and> (i < length idx \<and> match_feature p (idx ! i) = Inr True
            \<and> (\<forall>j<i. match_feature p (idx ! j) = Inr False)
          \<longrightarrow> lookup idx p = Inr (properties (idx ! i)))"
  using assms by (auto dest: GeoFeatureIndex_Inr_D intro: lookup_nth_first_match)

theorem lookup_returns_first_matching_feature_witness:
  "GeoFeatureIndex \<lparr>float_of_str = \<lambda>s. None, float_of_int = \<lambda>i. Some (real_of_int i)\<rparr>
     [PDict [(''geometry'',
               PDict [(''type'', PStr ''Polygon''),
                      (''coordinates'', PList
                        [PList [PList [PFloat 100, PFloat 100], PList [PFloat 110, PFloat 100], PList [PFloat 110, PFloat 110], PList [PFloat 100, PFloat 110]]])]),
             (''properties'', PDict [(''name'', PStr ''Far'')])],
      PDict [(''geometry'',
               PDict [(''type'', PStr ''Polygon''),
                      (''coordinates'', PList
                        [PList [PList [PFloat 0, PFloat 0], PList [PFloat 10, PFloat 0], PList [PFloat 10, PFloat 10], PList [PFloat 0, PFloat 10]]])]),
             (''properties'', PDict [(''name'', PStr ''North'')])],
      PDict [(''geometry'',
               PDict [(''type'', PStr ''Polygon''),
                      (''coordinates'', PList
                        [PList [PList [PFloat 0, PFloat (- 10)], PList [PFloat 10, PFloat (- 10)], PList [PFloat 10, PFloat 0], PList [PFloat 0, PFloat 0]]])]),
             (''properties'', PDict [(''name'', PStr ''South'')])]]
   = Inr
     [\<lparr>bbox = (Fin 100, Fin 100, Fin 110, Fin 110),
       polygons = [[[(100, 100), (110, 100), (110, 110), (100, 110)]]],
       properties = PDict [(''name'', PStr ''Far'')]\<rparr>,
      \<lparr>bbox = (Fin 0, Fin 0, Fin 10, Fin 10),
       polygons = [[[(0, 0), (10, 0), (10, 10), (0, 10)]]],
       properties = PDict [(''name'', PStr ''North'')]\<rparr>,
      \<lparr>bbox = (Fin 0, Fin (- 10), Fin 10, Fin 0),
       polygons = [[[(0, - 10), (10, - 10), (10, 0), (0, 0)]]],
       properties = PDict [(''name'', PStr ''South'')]\<rparr>]
   \<and> match_feature (5, 0) 
     \<lparr>bbox = (Fin 100, Fin 100, Fin 110, Fin 110),
       polygons = [[[(100, 100), (110, 100), (110, 110), (100, 110)]]],
       properties = PDict [(''name'', PStr ''Far'')]\<rparr> = Inr False
   \<and> match_feature (5, 0) 
     \<lparr>bbox = (Fin 0, Fin 0, Fin 10, Fin 10),
       polygons = [[[(0, 0), (10, 0), (10, 10), (0, 10)]]],
       properties = PDict [(''name'', PStr ''North'')]\<rparr> = Inr True
   \<and> match_feature (5, 0) 
     \<lparr>bbox = (Fin 0, Fin (- 10), Fin 10, Fin 0),
       polygons = [[[(0, - 10), (10, - 10), (10, 0), (0, 0)]]],
       properties = PDict [(''name'', PStr ''South'')]\<rparr> = Inr True
   \<and> lookup
     [\<lparr>bbox = (Fin 100, Fin 100, Fin 110, Fin 110),
       polygons = [[[(100, 100), (110, 100), (110, 110), (100, 110)]]],
       properties = PDict [(''name'', PStr ''Far'')]\<rparr>,
      \<lparr>bbox = (Fin 0, Fin 0, Fin 10, Fin 10),
       polygons = [[[(0, 0), (10, 0), (10, 10), (0, 10)]]],
       properties = PDict [(''name'', PStr ''North'')]\<rparr>,
      \<lparr>bbox = (Fin 0, Fin (- 10), Fin 10, Fin 0),
       polygons = [[[(0, - 10), (10, - 10), (10, 0), (0, 0)]]],
       properties = PDict [(''name'', PStr ''South'')]\<rparr>]
     (5, 0) = Inr (PDict [(''name'', PStr ''North'')])"
  (is "GeoFeatureIndex ?sf ?recs = Inr ?idx \<and> ?m0 \<and> ?m1 \<and> ?m2 \<and> ?result")
proof -
  have built: "GeoFeatureIndex ?sf ?recs = Inr ?idx" by code_simp
  have m0: ?m0 by code_simp
  have m1: ?m1 by code_simp
  have m2: ?m2 by code_simp
  have hyp: "1 < length ?idx \<and> match_feature (5, 0) (?idx ! 1) = Inr True
      \<and> (\<forall>j<1. match_feature (5, 0) (?idx ! j) = Inr False)"
    using m0 m1 by simp
  from lookup_returns_first_matching_feature [OF built, of 1 "(5, 0)"] hyp
  have "lookup ?idx (5, 0) = Inr (properties (?idx ! 1))" by blast
  then have ?result by simp
  with built m0 m1 m2 show ?thesis by blast
qed

section \<open>Extraction of coordinates\<close>

text \<open>
  Claim C2, as the code has it. The claim that a coordinate entry with more than two
  components is read by its first two fails: the loop target \<^verbatim>\<open>x, y\<close> unpacks exactly
  two values, and an entry \<open>[x, y, z]\<close> raises \<^verbatim>\<open>ValueError\<close>.
\<close>

theorem extract_polygons_third_component_counterexample:
  "extract_polygons \<lparr>float_of_str = \<lambda>s. None, float_of_int = \<lambda>i. Some (real_of_int i)\<rparr>
     (PDict [(''type'', PStr ''Polygon''),
             (''coordinates'',
              PList [PList [PList [PFloat 0, PFloat 0, PFloat 5], PList [PFloat 4, PFloat 0, PFloat 5],
                            PList [PFloat 4, PFloat 4, PFloat 5]]])])
   = Inl ValueError"
  by code_simp

text \<open>
  Claim C2, amended. For a geometry record of type \<^verbatim>\<open>"Polygon"\<close> or
  \<^verbatim>\<open>"MultiPolygon"\<close> whose coordinates are nested lists: when every coordinate
  entry has exactly two components and \<^verbatim>\<open>float\<close> converts each of them,
  \<^verbatim>\<open>extract_polygons\<close> succeeds and gives, entry by entry, the pair of the two
  converted components. When every entry has at least two components, \<^verbatim>\<open>float\<close>
  converts the components of the entries that have exactly two, and some entry has more
  than two, \<^verbatim>\<open>extract_polygons\<close> raises \<^verbatim>\<open>ValueError\<close>: the extra components
  are not ignored.
\<close>

theorem extract_polygons_reads_pairs_only:
  assumes "is_geometry_of kvs polys"
  shows "((\<forall>entry\<in>set (concat (concat polys)).
              length entry = 2 \<and> (\<forall>c\<in>set entry. \<exists>r. py_float sf c = Inr r)) \<longrightarrow>
            extract_polygons sf (PDict kvs)
              = Inr (map (map (map (\<lambda>entry.
                       (projr (py_float sf (entry ! 0)), projr (py_float sf (entry ! 1)))))) polys))
       \<and> ((\<forall>entry\<in>set (concat (concat polys)).
              2 \<le> length entry \<and>
              (length entry = 2 \<longrightarrow> (\<forall>c\<in>set entry. \<exists>r. py_float sf c = Inr r))) \<and>
          (\<exists>entry\<in>set (concat (concat polys)). 2 < length entry) \<longrightarrow>
            extract_polygons sf (PDict kvs) = Inl ValueError)"
proof (intro conjI impI)
  let ?F = "\<lambda>entry. coord_pair sf (PList entry)"
  let ?g = "\<lambda>entry. (projr (py_float sf (entry ! 0)), projr (py_float sf (entry ! 1)))"
  assume two: "\<forall>entry\<in>set (concat (concat polys)).
              length entry = 2 \<and> (\<forall>c\<in>set entry. \<exists>r. py_float sf c = Inr r)"
  have l1: "try_map ?F ring = Inr (map ?g ring)"
    if "polygon \<in> set polys" "ring \<in> set polygon" for polygon ring
  proof (rule try_map_all_Inr, rule ballI)
    fix entry assume "entry \<in> set ring"
    with that have "entry \<in> set (concat (concat polys))" by auto
    with two have "length entry = 2" "\<forall>c\<in>set entry. \<exists>r. py_float sf c = Inr r" by blast+
    then show "?F entry = Inr (?g entry)" by (rule coord_pair_converted)
  qed
  have l2: "try_map (try_map ?F) polygon = Inr (map (map ?g) polygon)"
    if "polygon \<in> set polys" for polygon
    by (rule try_map_all_Inr) (simp add: l1 [OF that])
  have "try_map (try_map (try_map ?F)) polys = Inr (map (map (map ?g)) polys)"
    by (rule try_map_all_Inr) (simp add: l2)
  then show "extract_polygons sf (PDict kvs) = Inr (map (map (map ?g)) polys)"
    by (simp add: extract_polygons_geometry [OF assms])
next
  let ?F = "\<lambda>entry. coord_pair sf (PList entry)"
  assume a: "(\<forall>entry\<in>set (concat (concat polys)).
              2 \<le> length entry \<and>
              (length entry = 2 \<longrightarrow> (\<forall>c\<in>set entry. \<exists>r. py_float sf c = Inr r))) \<and>
          (\<exists>entry\<in>set (concat (concat polys)). 2 < length entry)"
  then obtain polygon ring entry where long:
    "polygon \<in> set polys" "ring \<in> set polygon" "entry \<in> set ring" "2 < length entry"
    by auto
  have u0: "(\<exists>y. ?F entry = Inr y) \<or> ?F entry = Inl ValueError"
    if "polygon \<in> set polys" "ring \<in> set polygon" "entry \<in> set ring" for polygon ring entry
  proof (cases "length entry = 2")
    case True
    from that have "entry \<in> set (concat (concat polys))" by auto
    with a True have "\<forall>c\<in>set entry. \<exists>r. py_float sf c = Inr r" by blast
    with True show ?thesis by (simp add: coord_pair_converted)
  next
    case False
    then show ?thesis by (simp add: coord_pair_not_two)
  qed
  have a1: "\<forall>x\<in>set ring. (\<exists>y. ?F x = Inr y) \<or> ?F x = Inl ValueError"
    if "polygon \<in> set polys" "ring \<in> set polygon" for polygon ring
  proof (rule ballI)
    fix x assume "x \<in> set ring"
    with that show "(\<exists>y. ?F x = Inr y) \<or> ?F x = Inl ValueError" by (rule u0)
  qed
  have u1: "(\<exists>y. try_map ?F ring = Inr y) \<or> try_map ?F ring = Inl ValueError"
    if "polygon \<in> set polys" "ring \<in> set polygon" for polygon ring
    using a1 [OF that] by (rule try_map_uniform)
  have a2: "\<forall>x\<in>set polygon. (\<exists>y. try_map ?F x = Inr y) \<or> try_map ?F x = Inl ValueError"
    if "polygon \<in> set polys" for polygon
  proof (rule ballI)
    fix x assume "x \<in> set polygon"
    with that show "(\<exists>y. try_map ?F x = Inr y) \<or> try_map ?F x = Inl ValueError" by (rule u1)
  qed
  have u2: "(\<exists>y. try_map (try_map ?F) polygon = Inr y) \<or> try_map (try_map ?F) polygon = Inl ValueError"
    if "polygon \<in> set polys" for polygon
    using a2 [OF that] by (rule try_map_uniform)
  have a3: "\<forall>x\<in>set polys. (\<exists>y. try_map (try_map ?F) x = Inr y)
      \<or> try_map (try_map ?F) x = Inl ValueError"
  proof (rule ballI)
    fix x assume "x \<in> set polys"
    then show "(\<exists>y. try_map (try_map ?F) x = Inr y) \<or> try_map (try_map ?F) x = Inl ValueError"
      by (rule u2)
  qed
  from long(4) have g0: "?F entry = Inl ValueError" by (simp add: coord_pair_not_two)
  have b1: "\<exists>x\<in>set ring. ?F x = Inl ValueError"
    using long(3) g0 by (rule bexI [rotated])
  have g1: "try_map ?F ring = Inl ValueError"
    using a1 [OF long(1,2)] b1 by (rule try_map_error_uniform)
  have b2: "\<exists>x\<in>set polygon. try_map ?F x = Inl ValueError"
    using long(2) g1 by (rule bexI [rotated])
  have g2: "try_map (try_map ?F) polygon = Inl ValueError"
    using a2 [OF long(1)] b2 by (rule try_map_error_uniform)
  have b3: "\<exists>x\<in>set polys. try_map (try_map ?F) x = Inl ValueError"
    using long(1) g2 by (rule bexI [rotated])
  have "try_map (try_map (try_map ?F)) polys = Inl ValueError"
    using a3 b3 by (rule try_map_error_uniform)
  then show "extract_polygons sf (PDict kvs) = Inl ValueError"
    by (simp add: extract_polygons_geometry [OF assms])
qed

theorem extract_polygons_reads_pairs_only_witness:
  "extract_polygons \<lparr>float_of_str = \<lambda>s. None, float_of_int = \<lambda>i. Some (real_of_int i)\<rparr>
     (PDict [(''type'', PStr ''Polygon''),
             (''coordinates'',
              PList [PList [PList [PInt 0, PFloat 0], PList [PFloat 4, PInt 0],
                            PList [PFloat 4, PFloat 3]]])])
   = Inr [[[(0, 0), (4, 0), (4, 3)]]]
   \<and> extract_polygons \<lparr>float_of_str = \<lambda>s. None, float_of_int = \<lambda>i. Some (real_of_int i)\<rparr>
     (PDict [(''type'', PStr ''MultiPolygon''),
             (''coordinates'',
              PList [PList [PList [PList [PFloat 0, PFloat 0], PList [PFloat 4, PFloat 0, PFloat 5],
                                   PList [PFloat 4, PFloat 4]]]])])
   = Inl ValueError"
  (is "extract_polygons ?sf (PDict ?flat) = Inr ?res \<and> extract_polygons ?sf (PDict ?tall) = Inl ValueError")
proof -
  let ?p2 = "[[[[PInt 0, PFloat 0], [PFloat 4, PInt 0], [PFloat 4, PFloat 3]]]]"
  let ?p3 = "[[[[PFloat 0, PFloat 0], [PFloat 4, PFloat 0, PFloat 5], [PFloat 4, PFloat 4]]]]"
  have g1: "is_geometry_of ?flat ?p2"
    by (simp add: is_geometry_of_def enc_polygon_def enc_ring_def dict_get_def dict_get_default_def)
  have two: "\<forall>entry\<in>set (concat (concat ?p2)).
      length entry = 2 \<and> (\<forall>c\<in>set entry. \<exists>r. py_float ?sf c = Inr r)"
    by simp
  from extract_polygons_reads_pairs_only [OF g1, of ?sf] two
  have "extract_polygons ?sf (PDict ?flat)
      = Inr (map (map (map (\<lambda>entry.
               (projr (py_float ?sf (entry ! 0)), projr (py_float ?sf (entry ! 1)))))) ?p2)"
    by blast
  then have one: "extract_polygons ?sf (PDict ?flat) = Inr ?res" by simp
  have g2: "is_geometry_of ?tall ?p3"
    by (simp add: is_geometry_of_def enc_polygon_def enc_ring_def dict_get_def dict_get_default_def)
  have long: "(\<forall>entry\<in>set (concat (concat ?p3)).
        2 \<le> length entry \<and>
        (length entry = 2 \<longrightarrow> (\<forall>c\<in>set entry. \<exists>r. py_float ?sf c = Inr r)))
      \<and> (\<exists>entry\<in>set (concat (concat ?p3)). 2 < length entry)"
    by simp
  from extract_polygons_reads_pairs_only [OF g2, of ?sf] long
  have "extract_polygons ?sf (PDict ?tall) = Inl ValueError" by blast
  with one show ?thesis by blast
qed

text \<open>
  Claim C7. For a geometry record of a supported type whose coordinates are nested
  lists, one entry of which holds a component that \<^verbatim>\<open>float\<close> does not convert,
  \<^verbatim>\<open>extract_polygons\<close> raises: a \<^verbatim>\<open>TypeError\<close>, a \<^verbatim>\<open>ValueError\<close> or an
  \<^verbatim>\<open>OverflowError\<close>, the exceptions of \<^verbatim>\<open>float\<close> and of unpacking an entry;
  when every entry is a pair it is the exception of the conversion of a component. The
  exception is not swallowed: a feature record with this geometry raises it in the loop
  body, and the construction of an index raises it when the records before that one are
  read without an exception.
\<close>

theorem bad_coordinate_fails_extraction_and_construction:
  assumes "is_geometry_of kvs polys"
      and "\<exists>entry\<in>set (concat (concat polys)). \<exists>c\<in>set entry. \<exists>e. py_float sf c = Inl e"
  shows "\<exists>e. extract_polygons sf (PDict kvs) = Inl e
           \<and> (e = TypeError \<or> e = ValueError \<or> e = OverflowError)
           \<and> ((\<forall>entry\<in>set (concat (concat polys)). length entry = 2) \<longrightarrow>
                (\<exists>c\<in>set (concat (concat (concat polys))). py_float sf c = Inl e))
           \<and> (\<forall>fkvs. dict_get fkvs ''geometry'' = PDict kvs \<longrightarrow>
                 build_feature sf (PDict fkvs) = Inl e
               \<and> (\<forall>pre acc acc' post. init_loop sf pre acc = Inr acc' \<longrightarrow>
                     init_loop sf (pre @ PDict fkvs # post) acc = Inl e)
               \<and> (\<forall>pre idx post. GeoFeatureIndex sf pre = Inr idx \<longrightarrow>
                     GeoFeatureIndex sf (pre @ PDict fkvs # post) = Inl e))"
proof -
  let ?F = "\<lambda>comps. coord_pair sf (PList comps)"
  have ex: "extract_polygons sf (PDict kvs) = try_map (try_map (try_map ?F)) polys"
    by (rule extract_polygons_geometry [OF assms(1)])
  from assms(2) obtain polygon ring entry c e0 where bad:
    "polygon \<in> set polys" "ring \<in> set polygon" "entry \<in> set ring" "c \<in> set entry"
    "py_float sf c = Inl e0"
    by auto
  from bad(4,5) have "\<exists>e'. ?F entry = Inl e'" by (rule coord_pair_component_fails)
  then obtain e1 where "?F entry = Inl e1" by blast
  with bad(3) have "\<exists>e'. try_map ?F ring = Inl e'" by (rule try_map_Inl_I)
  then obtain e2 where "try_map ?F ring = Inl e2" by blast
  with bad(2) have "\<exists>e'. try_map (try_map ?F) polygon = Inl e'" by (rule try_map_Inl_I)
  then obtain e3 where "try_map (try_map ?F) polygon = Inl e3" by blast
  with bad(1) have "\<exists>e'. try_map (try_map (try_map ?F)) polys = Inl e'" by (rule try_map_Inl_I)
  then obtain e where e: "try_map (try_map (try_map ?F)) polys = Inl e" by blast
  from try_map_Inl_D [OF e] obtain polygon' where p': "polygon' \<in> set polys"
    "try_map (try_map ?F) polygon' = Inl e" by blast
  from try_map_Inl_D [OF p'(2)] obtain ring' where r': "ring' \<in> set polygon'"
    "try_map ?F ring' = Inl e" by blast
  from try_map_Inl_D [OF r'(2)] obtain entry' where e': "entry' \<in> set ring'"
    "?F entry' = Inl e" by blast
  from e'(2) have kind: "e = TypeError \<or> e = ValueError \<or> e = OverflowError"
    by (rule coord_pair_error_kind)
  have conv: "\<exists>c\<in>set (concat (concat (concat polys))). py_float sf c = Inl e"
    if two: "\<forall>entry\<in>set (concat (concat polys)). length entry = 2"
  proof -
    from p'(1) r'(1) e'(1) two have "length entry' = 2" by auto
    then obtain a' b' where ab': "entry' = [a', b']" using length_two_D by blast
    from e'(2) have "py_float sf a' = Inl e \<or> py_float sf b' = Inl e"
      unfolding ab' by (rule coord_pair_error_component)
    then obtain c' where c': "c' \<in> set entry'" "py_float sf c' = Inl e"
      unfolding ab' by auto
    from c'(1) e'(1) r'(1) p'(1) have "c' \<in> set (concat (concat (concat polys)))" by auto
    with c'(2) show ?thesis by blast
  qed
  from ex e have xe: "extract_polygons sf (PDict kvs) = Inl e" by simp
  have ne: "kvs \<noteq> []" using assms(1) by (rule is_geometry_of_nonempty)
  have rest: "build_feature sf (PDict fkvs) = Inl e
               \<and> (\<forall>pre acc acc' post. init_loop sf pre acc = Inr acc' \<longrightarrow>
                     init_loop sf (pre @ PDict fkvs # post) acc = Inl e)
               \<and> (\<forall>pre idx post. GeoFeatureIndex sf pre = Inr idx \<longrightarrow>
                     GeoFeatureIndex sf (pre @ PDict fkvs # post) = Inl e)"
    if g: "dict_get fkvs ''geometry'' = PDict kvs" for fkvs
  proof -
    have b: "build_feature sf (PDict fkvs) = Inl e"
      using g ne xe by (rule build_feature_extract_error)
    then show ?thesis
      by (auto simp: GeoFeatureIndex_def intro: init_loop_abort)
  qed
  from kind xe rest conv show ?thesis by blast
qed

theorem bad_coordinate_fails_extraction_and_construction_witness:
  "extract_polygons \<lparr>float_of_str = \<lambda>s. None, float_of_int = \<lambda>i. Some (real_of_int i)\<rparr>
     (PDict [(''type'', PStr ''Polygon''),
             (''coordinates'',
              PList [PList [PList [PFloat 0, PFloat 0, PFloat 0], PList [PFloat 4, PNone],
                            PList [PFloat 4, PFloat 4]]])])
   = Inl ValueError
   \<and> extract_polygons \<lparr>float_of_str = \<lambda>s. None, float_of_int = \<lambda>i. Some (real_of_int i)\<rparr>
     (PDict [(''type'', PStr ''Polygon''),
             (''coordinates'', PList
               [PList [PList [PFloat 0, PFloat 0], PList [PFloat 4, PNone], PList [PFloat 4, PFloat 4]]])])
   = Inl TypeError
   \<and> GeoFeatureIndex \<lparr>float_of_str = \<lambda>s. None, float_of_int = \<lambda>i. Some (real_of_int i)\<rparr>
     [PDict
      [(''geometry'',
        PDict [(''type'', PStr ''Polygon''),
               (''coordinates'', PList
                 [PList [PList [PFloat 0, PFloat 0], PList [PFloat 10, PFloat 0], PList [PFloat 10, PFloat 10], PList [PFloat 0, PFloat 10]]])]),
       (''properties'', PDict [(''name'', PStr ''North'')])],
      PDict
      [(''geometry'',
        PDict [(''type'', PStr ''Polygon''),
               (''coordinates'', PList
                 [PList [PList [PFloat 0, PFloat 0], PList [PFloat 4, PNone], PList [PFloat 4, PFloat 4]]])]),
       (''properties'', PDict [(''name'', PStr ''Bad'')])],
      PDict
      [(''geometry'',
        PDict [(''type'', PStr ''Polygon''),
               (''coordinates'', PList
                 [PList [PList [PFloat 0, PFloat (- 10)], PList [PFloat 10, PFloat (- 10)], PList [PFloat 10, PFloat 0], PList [PFloat 0, PFloat 0]]])]),
       (''properties'', PDict [(''name'', PStr ''South'')])]]
   = Inl TypeError"
  (is "extract_polygons ?sf (PDict ?mixed) = Inl ValueError
       \<and> extract_polygons ?sf (PDict ?kvs) = Inl TypeError
       \<and> GeoFeatureIndex ?sf [?n, PDict ?fkvs, ?s] = Inl TypeError")
proof -
  let ?pm = "[[[[PFloat 0, PFloat 0, PFloat 0], [PFloat 4, PNone], [PFloat 4, PFloat 4]]]]"
  let ?p = "[[[[PFloat 0, PFloat 0], [PFloat 4, PNone], [PFloat 4, PFloat 4]]]]"
  have gm: "is_geometry_of ?mixed ?pm"
    by (simp add: is_geometry_of_def enc_polygon_def enc_ring_def dict_get_def dict_get_default_def)
  have badm: "\<exists>entry\<in>set (concat (concat ?pm)). \<exists>c\<in>set entry. \<exists>e. py_float ?sf c = Inl e"
    by simp
  from bad_coordinate_fails_extraction_and_construction [OF gm badm]
  obtain em where "extract_polygons ?sf (PDict ?mixed) = Inl em" by blast
  moreover have "extract_polygons ?sf (PDict ?mixed) = Inl ValueError" by code_simp
  ultimately have first: "extract_polygons ?sf (PDict ?mixed) = Inl ValueError" by simp
  have g: "is_geometry_of ?kvs ?p"
    by (simp add: is_geometry_of_def enc_polygon_def enc_ring_def dict_get_def dict_get_default_def)
  have bad: "\<exists>entry\<in>set (concat (concat ?p)). \<exists>c\<in>set entry. \<exists>e. py_float ?sf c = Inl e"
    by simp
  from bad_coordinate_fails_extraction_and_construction [OF g bad]
  obtain e where e: "extract_polygons ?sf (PDict ?kvs) = Inl e"
    and all: "\<forall>fkvs. dict_get fkvs ''geometry'' = PDict ?kvs \<longrightarrow>
                 build_feature ?sf (PDict fkvs) = Inl e
               \<and> (\<forall>pre acc acc' post. init_loop ?sf pre acc = Inr acc' \<longrightarrow>
                     init_loop ?sf (pre @ PDict fkvs # post) acc = Inl e)
               \<and> (\<forall>pre idx post. GeoFeatureIndex ?sf pre = Inr idx \<longrightarrow>
                     GeoFeatureIndex ?sf (pre @ PDict fkvs # post) = Inl e)"
    by blast
  have x: "extract_polygons ?sf (PDict ?kvs) = Inl TypeError" by code_simp
  with e have et: "e = TypeError" by simp
  have fg: "dict_get ?fkvs ''geometry'' = PDict ?kvs"
    by (simp add: dict_get_def dict_get_default_def)
  have pre: "GeoFeatureIndex ?sf [?n] = Inr
     [\<lparr>bbox = (Fin 0, Fin 0, Fin 10, Fin 10),
       polygons = [[[(0, 0), (10, 0), (10, 10), (0, 10)]]],
       properties = PDict [(''name'', PStr ''North'')]\<rparr>]"
    by code_simp
  from all fg pre have "GeoFeatureIndex ?sf ([?n] @ PDict ?fkvs # [?s]) = Inl e" by blast
  with et x first show ?thesis by simp
qed

end
